theory Spec2Isabelle
  imports Complex_Main "HOL-Library.AList"
begin

section \<open>Enumerations and constant tables of simutd.py\<close>

text \<open>
  The factory simulation of \<^verbatim>\<open>src/factorySim/simutd.py\<close>. Python floats are idealised
  as rationals (\<^typ>\<open>rat\<close>), Python ints are \<^typ>\<open>int\<close>, and \<^verbatim>\<open>int(x)\<close> on a float is
  truncation towards zero.
\<close>

datatype LogLevel = INFO | WARNING | ERROR | STRATEGY | DISRUPTION

datatype DisruptionType =
  CNC_FAILURE | ORDER_SPIKE | SUPPLY_CHAIN | WORKER_ABSENCE | QUALITY_ISSUE | POWER_OUTAGE
| ORDER_CANCELLATION

datatype AdaptationStrategy =
  PREVENTIVE_MAINTENANCE | FLEXIBLE_WORKFORCE | JUST_IN_TIME_REPLENISHMENT
| SUPPLIER_DIVERSIFICATION | OVERTIME_POLICY | QUALITY_MONITORING | KPI_MONITORING
| MODULAR_REPAIR_KITS | OUTSOURCING | LEAN_MANUFACTURING | PEAK_LOAD_OPTIMIZATION
| INVENTORY_LIQUIDATION
| PURCHASE_CNC_MACHINE | SELL_CNC_MACHINE | HIRE_WORKERS | REDUCE_WORKFORCE
| EMERGENCY_MATERIALS | UPGRADE_ASSEMBLY | INSTALL_BACKUP_GENERATOR | EXPEDITE_MAINTENANCE
| BULK_ORDER_MATERIALS | CANCEL_PENDING_ORDERS | REALLOCATE_WORKERS | SCHEDULE_OVERTIME

text \<open>\<^verbatim>\<open>list(AdaptationStrategy)\<close>: the members in definition order.\<close>

definition strategies :: "AdaptationStrategy list" where
  "strategies =
    [PREVENTIVE_MAINTENANCE, FLEXIBLE_WORKFORCE, JUST_IN_TIME_REPLENISHMENT,
     SUPPLIER_DIVERSIFICATION, OVERTIME_POLICY, QUALITY_MONITORING, KPI_MONITORING,
     MODULAR_REPAIR_KITS, OUTSOURCING, LEAN_MANUFACTURING, PEAK_LOAD_OPTIMIZATION,
     INVENTORY_LIQUIDATION,
     PURCHASE_CNC_MACHINE, SELL_CNC_MACHINE, HIRE_WORKERS, REDUCE_WORKFORCE,
     EMERGENCY_MATERIALS, UPGRADE_ASSEMBLY, INSTALL_BACKUP_GENERATOR, EXPEDITE_MAINTENANCE,
     BULK_ORDER_MATERIALS, CANCEL_PENDING_ORDERS, REALLOCATE_WORKERS, SCHEDULE_OVERTIME]"

definition ONE_TIME_STRATEGIES :: "AdaptationStrategy set" where
  "ONE_TIME_STRATEGIES =
    {PURCHASE_CNC_MACHINE, SELL_CNC_MACHINE, HIRE_WORKERS, REDUCE_WORKFORCE,
     EMERGENCY_MATERIALS, UPGRADE_ASSEMBLY, INSTALL_BACKUP_GENERATOR, EXPEDITE_MAINTENANCE,
     BULK_ORDER_MATERIALS, CANCEL_PENDING_ORDERS, REALLOCATE_WORKERS, SCHEDULE_OVERTIME}"

fun IMPLEMENTATION :: "AdaptationStrategy \<Rightarrow> rat" where
  "IMPLEMENTATION PREVENTIVE_MAINTENANCE = 25000"
| "IMPLEMENTATION FLEXIBLE_WORKFORCE = 18000"
| "IMPLEMENTATION JUST_IN_TIME_REPLENISHMENT = 20000"
| "IMPLEMENTATION SUPPLIER_DIVERSIFICATION = 35000"
| "IMPLEMENTATION OVERTIME_POLICY = 5000"
| "IMPLEMENTATION QUALITY_MONITORING = 42000"
| "IMPLEMENTATION KPI_MONITORING = 25000"
| "IMPLEMENTATION MODULAR_REPAIR_KITS = 18000"
| "IMPLEMENTATION OUTSOURCING = 30000"
| "IMPLEMENTATION LEAN_MANUFACTURING = 38000"
| "IMPLEMENTATION PEAK_LOAD_OPTIMIZATION = 15000"
| "IMPLEMENTATION INVENTORY_LIQUIDATION = 8000"
| "IMPLEMENTATION PURCHASE_CNC_MACHINE = 150000"
| "IMPLEMENTATION SELL_CNC_MACHINE = 5000"
| "IMPLEMENTATION HIRE_WORKERS = 15000"
| "IMPLEMENTATION REDUCE_WORKFORCE = 30000"
| "IMPLEMENTATION EMERGENCY_MATERIALS = 40000"
| "IMPLEMENTATION UPGRADE_ASSEMBLY = 75000"
| "IMPLEMENTATION INSTALL_BACKUP_GENERATOR = 55000"
| "IMPLEMENTATION EXPEDITE_MAINTENANCE = 25000"
| "IMPLEMENTATION BULK_ORDER_MATERIALS = 80000"
| "IMPLEMENTATION CANCEL_PENDING_ORDERS = 20000"
| "IMPLEMENTATION REALLOCATE_WORKERS = 5000"
| "IMPLEMENTATION SCHEDULE_OVERTIME = 18000"

fun WEEKLY :: "AdaptationStrategy \<Rightarrow> rat" where
  "WEEKLY PREVENTIVE_MAINTENANCE = 625"
| "WEEKLY FLEXIBLE_WORKFORCE = 300"
| "WEEKLY JUST_IN_TIME_REPLENISHMENT = 300"
| "WEEKLY SUPPLIER_DIVERSIFICATION = 450"
| "WEEKLY OVERTIME_POLICY = 0"
| "WEEKLY QUALITY_MONITORING = 550"
| "WEEKLY KPI_MONITORING = 400"
| "WEEKLY MODULAR_REPAIR_KITS = 250"
| "WEEKLY OUTSOURCING = 250"
| "WEEKLY LEAN_MANUFACTURING = 450"
| "WEEKLY PEAK_LOAD_OPTIMIZATION = 350"
| "WEEKLY INVENTORY_LIQUIDATION = 200"
| "WEEKLY _ = 0"

text \<open>\<^verbatim>\<open>StrategyDurations.DURATION\<close>, in minutes.\<close>

fun DURATION :: "AdaptationStrategy \<Rightarrow> rat" where
  "DURATION PREVENTIVE_MAINTENANCE = 14 * 24 * 60"
| "DURATION FLEXIBLE_WORKFORCE = 21 * 24 * 60"
| "DURATION JUST_IN_TIME_REPLENISHMENT = 30 * 24 * 60"
| "DURATION SUPPLIER_DIVERSIFICATION = 45 * 24 * 60"
| "DURATION OVERTIME_POLICY = 5 * 24 * 60"
| "DURATION QUALITY_MONITORING = 30 * 24 * 60"
| "DURATION KPI_MONITORING = 30 * 24 * 60"
| "DURATION MODULAR_REPAIR_KITS = 60 * 24 * 60"
| "DURATION OUTSOURCING = 10 * 24 * 60"
| "DURATION LEAN_MANUFACTURING = 60 * 24 * 60"
| "DURATION PEAK_LOAD_OPTIMIZATION = 14 * 24 * 60"
| "DURATION INVENTORY_LIQUIDATION = 7 * 24 * 60"
| "DURATION _ = 0"

definition PARTS_PER_PRODUCT :: int where "PARTS_PER_PRODUCT = 3"
definition QC_INSPECTION_TIME :: rat where "QC_INSPECTION_TIME = 15"
definition NORMAL_ORDER_RATE :: rat where "NORMAL_ORDER_RATE = 25"
definition DELIVERY_TIME :: rat where "DELIVERY_TIME = 2 * 24 * 60"
definition RAW_MATERIAL_COST :: rat where "RAW_MATERIAL_COST = 70"
definition FINISHED_PRODUCT_VALUE :: rat where "FINISHED_PRODUCT_VALUE = 590"
definition NUM_QC_STATIONS :: int where "NUM_QC_STATIONS = 3"

text \<open>Python's \<^verbatim>\<open>int(x)\<close> on a float: truncation towards zero.\<close>

definition py_int :: "rat \<Rightarrow> int" where
  "py_int x = (if 0 \<le> x then \<lfloor>x\<rfloor> else \<lceil>x\<rceil>)"

text \<open>
  The random source. Every call of \<^verbatim>\<open>random.random()\<close>, \<^verbatim>\<open>random.uniform\<close> and
  \<^verbatim>\<open>random.randint\<close> takes one draw \<open>r\<close> with \<open>0 \<le> r < 1\<close> from a list handed to the
  code segment that runs; a missing draw reads as 0.
\<close>

definition draw :: "rat list \<Rightarrow> nat \<Rightarrow> rat" where
  "draw rs i = (if i < length rs then rs ! i else 0)"

definition uniform :: "rat \<Rightarrow> rat \<Rightarrow> rat \<Rightarrow> rat" where
  "uniform a b r = a + (b - a) * r"

definition randint :: "int \<Rightarrow> int \<Rightarrow> rat \<Rightarrow> int" where
  "randint a b r = a + \<lfloor>r * of_int (b - a + 1)\<rfloor>"

definition unit_draws :: "rat list \<Rightarrow> bool" where
  "unit_draws rs = (\<forall>r \<in> set rs. 0 \<le> r \<and> r < 1)"

section \<open>Resource pools, processes and the factory state\<close>

text \<open>
  \<^verbatim>\<open>simpy.Resource\<close> is library code. It is modelled after its behaviour: a resource has a
  capacity, the list \<open>users\<close> of granted requests and the FIFO list \<open>put_queue\<close> of waiting
  requests. Resource objects live in a store (the list \<open>resources\<close> of the factory state);
  a pool field of the factory (\<^verbatim>\<open>self.cnc_machines\<close>, ...) holds the address of its current
  object, and a request is the pair of the address of the resource it was made on and its
  own identifier.
\<close>

record resource =
  capacity :: int
  users :: "nat list"
  put_queue :: "nat list"

type_synonym req = "nat \<times> nat"

text \<open>
  A process is a Python generator; its value here is the point where it is suspended,
  with the local variables it still needs. \<open>_loop\<close> and \<open>_start\<close> are the entry of
  the generator (or of its \<^verbatim>\<open>while True\<close> loop); the other constructors are the
  continuations after a \<^verbatim>\<open>yield\<close>.
\<close>

datatype proc =
  GenerateOrders_loop | GenerateOrders_body
| WorkerCosts_loop | WorkerCosts_body
| InventoryCosts_loop | InventoryCosts_body
| MonitorMetrics_loop
| GenerateDisruptions_loop | GenerateDisruptions_body
| ProduceParts_loop | ProduceParts_cnc req | ProduceParts_worker req req
| ProduceParts_done req req int
| Assemble_loop | Assemble_acquired req req | Assemble_done req req int
| ProductToQc_start | ProductToQc_outage | ProductToQc_acquired req req
| ProductToQc_inspected req req
| Liquidate_start | Liquidate_recheck
| OrderRaw_start | OrderRaw_deliver int
| OrderCancellation_start | OrderCancellation_end
| CncFailure_start | CncFailure_end
| OrderSpike_start | OrderSpike_end rat "(rat \<times> rat) option"
| SupplyChain_start | SupplyChain_end
| WorkerAbsence_start int | WorkerAbsence_end int
| QualityIssue_start rat | QualityIssue_end
| PowerOutage_start | PowerOutage_end
| RestorePowerRisk_start rat | RestorePowerRisk_end rat
| RestoreFailureChance_start rat | RestoreFailureChance_end rat
| BulkDelivery_start | BulkDelivery_second int | BulkDelivery_third int int
| RestoreProcessTimes_start rat rat | RestoreProcessTimes_end rat rat
| EndOvertime_start rat rat | EndOvertime_end rat rat

datatype strategy_action = Activated | Deactivated | Executed_one_time

text \<open>
  The state: the module-level variables that the code rebinds with \<^verbatim>\<open>global\<close> (upper
  case), the attributes of \<^verbatim>\<open>MQTTValueFactory\<close>, and of the simpy environment the clock
  \<open>env_now\<close>, the scheduled resumptions \<open>events\<close> (time and process, in scheduling
  order) and the processes \<open>blocked\<close> on resource requests. A log entry keeps the
  simulated time stamp, the level and the component; the message text, the MQTT
  publishing and the attributes that only feed telemetry (energy, OEE, sensor ambient
  values, utilisation, maintenance statistics, the metrics history other than the profit
  series) are left out.
\<close>

record factory =
  NUM_CNC_MACHINES :: int
  NUM_ASSEMBLY_STATIONS :: int
  NUM_WORKERS :: int
  CNC_PROCESSING_TIME :: rat
  ASSEMBLY_TIME :: rat
  CNC_FAILURE_CHANCE :: rat
  SUPPLY_CHAIN_ISSUE_CHANCE :: rat
  QUALITY_ISSUE_CHANCE :: rat
  POWER_OUTAGE_CHANCE :: rat
  env_now :: rat
  events :: "(rat \<times> proc) list"
  blocked :: "proc list"
  resources :: "resource list"
  next_request :: nat
  cnc_machines :: nat
  assembly_stations :: nat
  qc_stations :: nat
  workers :: nat
  operational_cnc_machines :: int
  available_workers :: int
  raw_materials :: int
  parts_inventory :: int
  finished_products :: int
  backlog :: int
  total_orders :: int
  fulfilled_orders :: int
  cancelled_orders :: int
  revenue :: rat
  costs :: rat
  inventory_holding_costs :: rat
  energy_costs :: rat
  liquidation_revenue :: rat
  current_order_rate :: rat
  supply_chain_disrupted :: bool
  has_quality_issue :: bool
  power_outage :: bool
  order_cancellation_active :: bool
  daily_production :: int
  defect_rate :: rat
  defects_found :: int
  total_inspected :: int
  false_positives :: int
  false_negatives :: int
  cnc_temperatures :: "rat list"
  cnc_vibrations :: "rat list"
  active_cnc_requests :: int
  active_worker_requests :: int
  active_qc_requests :: int
  adaptation_strategies :: "AdaptationStrategy set"
  strategy_implementation_dates :: "(AdaptationStrategy \<times> rat) list"
  strategy_expiration_times :: "(AdaptationStrategy \<times> rat) list"
  strategy_weekly_costs :: rat
  disruptions_history :: "(rat \<times> DisruptionType) list"
  strategy_changes_history :: "(rat \<times> AdaptationStrategy \<times> strategy_action) list"
  logs :: "(rat \<times> LogLevel \<times> string) list"
  metrics_history_profit :: "rat list"
  paused :: bool
  current_time :: rat

section \<open>Logging, scheduling and resource requests\<close>

datatype py_error =
  ValueError | IndexError | AttributeError | TypeError | KeyError | OverflowError
| UnicodeDecodeError

text \<open>A raised exception carries the state at the raise: mutations made before it stay.\<close>

type_synonym 'a result = "(py_error \<times> factory) + 'a"

definition log :: "LogLevel \<Rightarrow> string \<Rightarrow> factory \<Rightarrow> factory" where
  "log level component st = st\<lparr>logs := logs st @ [(current_time st, level, component)]\<rparr>"

text \<open>\<^verbatim>\<open>yield self.env.timeout(d)\<close> with the continuation \<open>p\<close>, and \<^verbatim>\<open>self.env.process(...)\<close>.\<close>

definition timeout :: "rat \<Rightarrow> proc \<Rightarrow> factory \<Rightarrow> factory" where
  "timeout d p st = st\<lparr>events := events st @ [(env_now st + d, p)]\<rparr>"

definition env_process :: "proc \<Rightarrow> factory \<Rightarrow> factory" where
  "env_process p st = st\<lparr>events := events st @ [(env_now st, p)]\<rparr>"

text \<open>\<^verbatim>\<open>yield req\<close> and \<^verbatim>\<open>yield req1 & req2\<close>: the process waits for its requests.\<close>

definition wait_for :: "proc \<Rightarrow> factory \<Rightarrow> factory" where
  "wait_for p st = st\<lparr>blocked := blocked st @ [p]\<rparr>"

text \<open>\<^verbatim>\<open>simpy.Resource(env, capacity)\<close>: a new object in the store; simpy rejects a capacity
  that is not positive.\<close>

definition simpy_Resource :: "int \<Rightarrow> factory \<Rightarrow> (nat \<times> factory) result" where
  "simpy_Resource c st =
     (if c \<le> 0 then Inl (ValueError, st)
      else Inr (length (resources st),
                st\<lparr>resources := resources st @ [\<lparr>capacity = c, users = [], put_queue = []\<rparr>]\<rparr>))"

text \<open>One pass of simpy's \<^verbatim>\<open>_trigger_put\<close>: the head of the queue is granted when a slot
  is free (\<^verbatim>\<open>Resource._do_put\<close> returns nothing, so the pass stops after the head).\<close>

definition trigger_put :: "resource \<Rightarrow> resource" where
  "trigger_put r =
     (case put_queue r of
        [] \<Rightarrow> r
      | q # qs \<Rightarrow> if int (length (users r)) < capacity r
                  then r\<lparr>users := users r @ [q], put_queue := qs\<rparr> else r)"

text \<open>\<^verbatim>\<open>resource.request()\<close> on the object at address \<open>a\<close>: the request joins the queue and
  the queue is triggered at once, so a free slot is taken by the creation of the request.\<close>

definition request :: "nat \<Rightarrow> factory \<Rightarrow> req \<times> factory" where
  "request a st =
     (let i = next_request st; r = resources st ! a
      in ((a, i),
          st\<lparr>next_request := i + 1,
              resources := (resources st)[a := trigger_put (r\<lparr>put_queue := put_queue r @ [i]\<rparr>)]\<rparr>))"

text \<open>Leaving the \<^verbatim>\<open>with\<close> block of a request: cancel it if it still waits, release its
  slot on the resource it was made on, and trigger that resource's queue.\<close>

definition release :: "req \<Rightarrow> factory \<Rightarrow> factory" where
  "release q st =
     (let r = resources st ! fst q
      in st\<lparr>resources := (resources st)[fst q :=
               trigger_put (r\<lparr>users := remove1 (snd q) (users r),
                               put_queue := remove1 (snd q) (put_queue r)\<rparr>)]\<rparr>)"

definition granted :: "factory \<Rightarrow> req \<Rightarrow> bool" where
  "granted st q = (snd q \<in> set (users (resources st ! fst q)))"

definition waiting :: "factory \<Rightarrow> req \<Rightarrow> bool" where
  "waiting st q = (snd q \<in> set (put_queue (resources st ! fst q)))"

text \<open>\<^verbatim>\<open>resource.count\<close> of the pool's current object.\<close>

definition in_use :: "factory \<Rightarrow> nat \<Rightarrow> int" where
  "in_use st a = int (length (users (resources st ! a)))"

section \<open>Inventory ledger: process_backlog\<close>

definition process_backlog :: "factory \<Rightarrow> factory" where
  "process_backlog st =
     (let available_products = min (finished_products st) (backlog st)
      in if available_products > 0 then
           (let st1 = st\<lparr>finished_products := finished_products st - available_products,
                          backlog := backlog st - available_products,
                          fulfilled_orders := fulfilled_orders st + available_products,
                          daily_production := daily_production st + available_products,
                          revenue := revenue st + of_int available_products * 1500\<rparr>
            in if available_products \<ge> 10 then log INFO ''Sales'' st1 else st1)
         else st)"

section \<open>Adaptation strategy manager\<close>

text \<open>The first half of \<^verbatim>\<open>apply_strategy_effects\<close>: history, cost, dates and the log.
  \<open>dur\<close> is the table \<^verbatim>\<open>StrategyDurations.DURATION\<close> as it stands at the call.\<close>

definition strategy_bookkeeping ::
  "(AdaptationStrategy \<Rightarrow> rat) \<Rightarrow> AdaptationStrategy \<Rightarrow> bool \<Rightarrow> factory \<Rightarrow> factory" where
  "strategy_bookkeeping dur strategy activate st =
     (let st1 = st\<lparr>strategy_changes_history := strategy_changes_history st @
                   [(env_now st, strategy, if activate then Activated else Deactivated)]\<rparr>
      in if activate then
           (let st2 = log STRATEGY ''Implementation''
                        (st1\<lparr>costs := costs st1 + IMPLEMENTATION strategy,
                             strategy_implementation_dates :=
                               AList.update strategy (env_now st1) (strategy_implementation_dates st1),
                             strategy_expiration_times :=
                               AList.update strategy (env_now st1 + dur strategy)
                                 (strategy_expiration_times st1)\<rparr>)
            in st2\<lparr>strategy_weekly_costs := strategy_weekly_costs st2 + WEEKLY strategy\<rparr>)
         else
           log STRATEGY ''Deactivation''
             (st1\<lparr>strategy_weekly_costs := strategy_weekly_costs st1 - WEEKLY strategy,
                  strategy_expiration_times := AList.delete strategy (strategy_expiration_times st1)\<rparr>))"

text \<open>The second half: the effect of the strategy on the parameters.\<close>

definition strategy_effect :: "AdaptationStrategy \<Rightarrow> bool \<Rightarrow> factory \<Rightarrow> factory" where
  "strategy_effect strategy activate st =
     (if strategy = PREVENTIVE_MAINTENANCE then
        (let factor = (if activate then 2/10 else 5)
         in st\<lparr>CNC_FAILURE_CHANCE := CNC_FAILURE_CHANCE st * factor\<rparr>)
      else if strategy = JUST_IN_TIME_REPLENISHMENT then
        (if activate then
           log INFO ''Inventory''
             (st\<lparr>raw_materials := raw_materials st + py_int (500 * (5/10)),
                 parts_inventory := parts_inventory st + py_int (80 * (5/10))\<rparr>)
         else st)
      else if strategy = FLEXIBLE_WORKFORCE then
        (let factor = (if activate then 7/10 else 1 / (7/10))
         in st\<lparr>ASSEMBLY_TIME := ASSEMBLY_TIME st * factor,
                CNC_PROCESSING_TIME := CNC_PROCESSING_TIME st * factor\<rparr>)
      else if strategy = SUPPLIER_DIVERSIFICATION then
        (let factor = (if activate then 25/100 else 4)
         in st\<lparr>SUPPLY_CHAIN_ISSUE_CHANCE := SUPPLY_CHAIN_ISSUE_CHANCE st * factor\<rparr>)
      else if strategy = QUALITY_MONITORING then
        (let factor = (if activate then 2/10 else 5);
             st1 = st\<lparr>QUALITY_ISSUE_CHANCE := QUALITY_ISSUE_CHANCE st * factor\<rparr>
         in if activate then st1\<lparr>defect_rate := defect_rate st1 * (4/10)\<rparr>
            else st1\<lparr>defect_rate := defect_rate st1 / (4/10)\<rparr>)
      else if strategy = PEAK_LOAD_OPTIMIZATION then
        (if activate then st\<lparr>POWER_OUTAGE_CHANCE := POWER_OUTAGE_CHANCE st * (6/10)\<rparr>
         else st\<lparr>POWER_OUTAGE_CHANCE := POWER_OUTAGE_CHANCE st / (6/10)\<rparr>)
      else if strategy = INVENTORY_LIQUIDATION then
        (if activate then env_process Liquidate_start st else st)
      else if strategy = KPI_MONITORING then
        (if activate then
           st\<lparr>CNC_FAILURE_CHANCE := CNC_FAILURE_CHANCE st * (85/100),
              QUALITY_ISSUE_CHANCE := QUALITY_ISSUE_CHANCE st * (85/100)\<rparr>
         else
           st\<lparr>CNC_FAILURE_CHANCE := CNC_FAILURE_CHANCE st / (85/100),
              QUALITY_ISSUE_CHANCE := QUALITY_ISSUE_CHANCE st / (85/100)\<rparr>)
      else st)"

definition apply_strategy_effects ::
  "(AdaptationStrategy \<Rightarrow> rat) \<Rightarrow> AdaptationStrategy \<Rightarrow> bool \<Rightarrow> factory \<Rightarrow> factory" where
  "apply_strategy_effects dur strategy activate st =
     strategy_effect strategy activate (strategy_bookkeeping dur strategy activate st)"

text \<open>\<^verbatim>\<open>check_strategy_expiration\<close>: collect the expired strategies in the order of the
  dictionary, then deactivate each (the status publishing is left out).\<close>

definition expire_strategy :: "AdaptationStrategy \<Rightarrow> factory \<Rightarrow> factory" where
  "expire_strategy strategy st =
     (let st1 = log STRATEGY ''Expiration'' st;
          st2 = st1\<lparr>adaptation_strategies := adaptation_strategies st1 - {strategy}\<rparr>
      in apply_strategy_effects DURATION strategy False st2)"

definition check_strategy_expiration :: "factory \<Rightarrow> factory" where
  "check_strategy_expiration st =
     (let expired_strategies =
            map fst (filter (\<lambda>(strategy, expiration_time).
                       env_now st \<ge> expiration_time \<and> strategy \<in> adaptation_strategies st)
                     (strategy_expiration_times st))
      in fold expire_strategy expired_strategies st)"

text \<open>The branches of \<^verbatim>\<open>execute_one_time_strategy\<close>, one definition per \<^verbatim>\<open>elif\<close>.\<close>

definition exec_PURCHASE_CNC_MACHINE :: "factory \<Rightarrow> factory result" where
  "exec_PURCHASE_CNC_MACHINE st =
     (let st1 = st\<lparr>NUM_CNC_MACHINES := NUM_CNC_MACHINES st + 1,
                    operational_cnc_machines := operational_cnc_machines st + 1\<rparr>
      in case simpy_Resource (NUM_CNC_MACHINES st1) st1 of
           Inl e \<Rightarrow> Inl e
         | Inr (new_cnc, st2) \<Rightarrow>
             Inr (log INFO ''Equipment''
                    (st2\<lparr>cnc_machines := new_cnc,
                         cnc_temperatures := cnc_temperatures st2 @ [20],
                         cnc_vibrations := cnc_vibrations st2 @ [1/10]\<rparr>)))"

definition exec_SELL_CNC_MACHINE :: "factory \<Rightarrow> factory result" where
  "exec_SELL_CNC_MACHINE st =
     (if NUM_CNC_MACHINES st > 1 then
        (let st1 = st\<lparr>NUM_CNC_MACHINES := NUM_CNC_MACHINES st - 1\<rparr>;
             st2 = (if operational_cnc_machines st1 > 0
                    then st1\<lparr>operational_cnc_machines := operational_cnc_machines st1 - 1\<rparr>
                    else st1)
         in case simpy_Resource (NUM_CNC_MACHINES st2) st2 of
              Inl e \<Rightarrow> Inl e
            | Inr (new_cnc, st3) \<Rightarrow>
                Inr (log INFO ''Equipment''
                       (st3\<lparr>cnc_machines := new_cnc,
                            cnc_temperatures := butlast (cnc_temperatures st3),
                            cnc_vibrations := butlast (cnc_vibrations st3),
                            revenue := revenue st3 + 75000\<rparr>)))
      else Inr (log WARNING ''Equipment'' st))"

definition exec_HIRE_WORKERS :: "factory \<Rightarrow> factory result" where
  "exec_HIRE_WORKERS st =
     (let new_workers = 3;
          st1 = st\<lparr>NUM_WORKERS := NUM_WORKERS st + new_workers,
                    available_workers := available_workers st + new_workers\<rparr>
      in case simpy_Resource (NUM_WORKERS st1) st1 of
           Inl e \<Rightarrow> Inl e
         | Inr (new_workers_resource, st2) \<Rightarrow>
             Inr (log INFO ''Workforce'' (st2\<lparr>workers := new_workers_resource\<rparr>)))"

definition exec_REDUCE_WORKFORCE :: "factory \<Rightarrow> factory result" where
  "exec_REDUCE_WORKFORCE st =
     (if NUM_WORKERS st > 3 then
        (let workers_to_layoff = min 3 (NUM_WORKERS st - 3);
             st1 = st\<lparr>NUM_WORKERS := NUM_WORKERS st - workers_to_layoff\<rparr>;
             st2 = st1\<lparr>available_workers := min (available_workers st1) (NUM_WORKERS st1)\<rparr>
         in case simpy_Resource (NUM_WORKERS st2) st2 of
              Inl e \<Rightarrow> Inl e
            | Inr (new_workers_resource, st3) \<Rightarrow>
                Inr (log INFO ''Workforce'' (st3\<lparr>workers := new_workers_resource\<rparr>)))
      else Inr (log WARNING ''Workforce'' st))"

definition exec_EMERGENCY_MATERIALS :: "factory \<Rightarrow> factory result" where
  "exec_EMERGENCY_MATERIALS st =
     Inr (log INFO ''Inventory'' (st\<lparr>raw_materials := raw_materials st + 1000\<rparr>))"

definition exec_UPGRADE_ASSEMBLY :: "factory \<Rightarrow> factory result" where
  "exec_UPGRADE_ASSEMBLY st =
     (let st1 = st\<lparr>ASSEMBLY_TIME := ASSEMBLY_TIME st * (7/10),
                    NUM_ASSEMBLY_STATIONS := NUM_ASSEMBLY_STATIONS st + 1\<rparr>
      in case simpy_Resource (NUM_ASSEMBLY_STATIONS st1) st1 of
           Inl e \<Rightarrow> Inl e
         | Inr (new_assembly, st2) \<Rightarrow>
             Inr (log INFO ''Equipment'' (st2\<lparr>assembly_stations := new_assembly\<rparr>)))"

definition exec_INSTALL_BACKUP_GENERATOR :: "factory \<Rightarrow> factory result" where
  "exec_INSTALL_BACKUP_GENERATOR st =
     (let st1 = (if power_outage st
                 then log INFO ''Infrastructure'' (st\<lparr>power_outage := False\<rparr>) else st);
          old_chance = POWER_OUTAGE_CHANCE st1;
          st2 = st1\<lparr>POWER_OUTAGE_CHANCE := POWER_OUTAGE_CHANCE st1 * (1/10)\<rparr>
      in Inr (log INFO ''Infrastructure'' (env_process (RestorePowerRisk_start old_chance) st2)))"

text \<open>The loop of EXPEDITE_MAINTENANCE over \<^verbatim>\<open>range(NUM_CNC_MACHINES)\<close>: \<open>k\<close> iterations
  are left, \<open>i\<close> is the index; an index beyond a list raises IndexError.\<close>

fun reset_machine_conditions :: "nat \<Rightarrow> nat \<Rightarrow> rat list \<Rightarrow> factory \<Rightarrow> factory result" where
  "reset_machine_conditions 0 i rs st = Inr st"
| "reset_machine_conditions (Suc k) i rs st =
     (if i < length (cnc_temperatures st) then
        (let st1 = st\<lparr>cnc_temperatures :=
                        (cnc_temperatures st)[i := 20 + uniform 0 2 (draw rs (2 * i))]\<rparr>
         in if i < length (cnc_vibrations st1) then
              reset_machine_conditions k (i + 1) rs
                (st1\<lparr>cnc_vibrations :=
                       (cnc_vibrations st1)[i := 1/10 + uniform 0 (1/10) (draw rs (2 * i + 1))]\<rparr>)
            else Inl (IndexError, st1))
      else Inl (IndexError, st))"

definition exec_EXPEDITE_MAINTENANCE :: "rat list \<Rightarrow> factory \<Rightarrow> factory result" where
  "exec_EXPEDITE_MAINTENANCE rs st =
     (if operational_cnc_machines st < NUM_CNC_MACHINES st then
        Inr (log INFO ''Maintenance''
               (st\<lparr>operational_cnc_machines := NUM_CNC_MACHINES st\<rparr>))
      else
        (let old_failure_chance = CNC_FAILURE_CHANCE st;
             st1 = st\<lparr>CNC_FAILURE_CHANCE := CNC_FAILURE_CHANCE st * (3/10)\<rparr>
         in case reset_machine_conditions (nat (NUM_CNC_MACHINES st1)) 0 rs st1 of
              Inl e \<Rightarrow> Inl e
            | Inr st2 \<Rightarrow>
                Inr (log INFO ''Maintenance''
                       (env_process (RestoreFailureChance_start old_failure_chance) st2))))"

definition exec_BULK_ORDER_MATERIALS :: "factory \<Rightarrow> factory result" where
  "exec_BULK_ORDER_MATERIALS st = Inr (log INFO ''Inventory'' (env_process BulkDelivery_start st))"

definition exec_CANCEL_PENDING_ORDERS :: "factory \<Rightarrow> factory result" where
  "exec_CANCEL_PENDING_ORDERS st =
     (if backlog st > 10 then
        (let cancellation_rate = 4/10;
             orders_to_cancel = py_int (of_int (backlog st) * cancellation_rate);
             cancellation_fee_rate = 15/100;
             cancellation_revenue = of_int orders_to_cancel * 1500 * cancellation_fee_rate
         in Inr (log INFO ''Orders''
                   (st\<lparr>backlog := backlog st - orders_to_cancel,
                       cancelled_orders := cancelled_orders st + orders_to_cancel,
                       revenue := revenue st + cancellation_revenue\<rparr>)))
      else Inr (log INFO ''Orders'' st))"

definition exec_REALLOCATE_WORKERS :: "factory \<Rightarrow> factory result" where
  "exec_REALLOCATE_WORKERS st =
     (let old_assembly_time = ASSEMBLY_TIME st;
          old_cnc_time = CNC_PROCESSING_TIME st;
          st1 = st\<lparr>ASSEMBLY_TIME := ASSEMBLY_TIME st * (8/10),
                    CNC_PROCESSING_TIME := CNC_PROCESSING_TIME st * (8/10)\<rparr>
      in Inr (log INFO ''Workforce''
                (env_process (RestoreProcessTimes_start old_assembly_time old_cnc_time) st1)))"

definition exec_SCHEDULE_OVERTIME :: "factory \<Rightarrow> factory result" where
  "exec_SCHEDULE_OVERTIME st =
     (let old_assembly_time = ASSEMBLY_TIME st;
          old_cnc_time = CNC_PROCESSING_TIME st;
          st1 = st\<lparr>ASSEMBLY_TIME := ASSEMBLY_TIME st * (67/100),
                    CNC_PROCESSING_TIME := CNC_PROCESSING_TIME st * (67/100)\<rparr>
      in Inr (log INFO ''Workforce''
                (env_process (EndOvertime_start old_assembly_time old_cnc_time) st1)))"

definition execute_one_time_strategy ::
  "rat list \<Rightarrow> AdaptationStrategy \<Rightarrow> factory \<Rightarrow> factory result" where
  "execute_one_time_strategy rs strategy st0 =
     (let st = log STRATEGY ''Execution'' st0
      in if strategy = PURCHASE_CNC_MACHINE then exec_PURCHASE_CNC_MACHINE st
         else if strategy = SELL_CNC_MACHINE then exec_SELL_CNC_MACHINE st
         else if strategy = HIRE_WORKERS then exec_HIRE_WORKERS st
         else if strategy = REDUCE_WORKFORCE then exec_REDUCE_WORKFORCE st
         else if strategy = EMERGENCY_MATERIALS then exec_EMERGENCY_MATERIALS st
         else if strategy = UPGRADE_ASSEMBLY then exec_UPGRADE_ASSEMBLY st
         else if strategy = INSTALL_BACKUP_GENERATOR then exec_INSTALL_BACKUP_GENERATOR st
         else if strategy = EXPEDITE_MAINTENANCE then exec_EXPEDITE_MAINTENANCE rs st
         else if strategy = BULK_ORDER_MATERIALS then exec_BULK_ORDER_MATERIALS st
         else if strategy = CANCEL_PENDING_ORDERS then exec_CANCEL_PENDING_ORDERS st
         else if strategy = REALLOCATE_WORKERS then exec_REALLOCATE_WORKERS st
         else if strategy = SCHEDULE_OVERTIME then exec_SCHEDULE_OVERTIME st
         else Inr st)"

text \<open>The return values of \<^verbatim>\<open>modify_strategy\<close> (its message strings, without the
  interpolated strategy name).\<close>

datatype modify_outcome =
  One_time_strategy_executed AdaptationStrategy
| Strategy_activated AdaptationStrategy
| No_change_already_active
| Strategy_deactivated AdaptationStrategy
| No_change_needed
| Invalid_strategy_index

text \<open>The affordability check of \<^verbatim>\<open>modify_strategy\<close>: a warning, the strategy is
  implemented anyway.\<close>

definition afford_warning :: "AdaptationStrategy \<Rightarrow> factory \<Rightarrow> factory" where
  "afford_warning strategy st =
     (let implementation_cost = IMPLEMENTATION strategy;
          revenue' = revenue st + liquidation_revenue st;
          costs' = costs st + inventory_holding_costs st + energy_costs st;
          current_profit = revenue' - costs'
      in if implementation_cost > current_profit + 10000 then log WARNING ''Strategy'' st
         else st)"

definition modify_strategy ::
  "rat list \<Rightarrow> int \<Rightarrow> bool \<Rightarrow> int option \<Rightarrow> factory \<Rightarrow> (modify_outcome \<times> factory) result" where
  "modify_strategy rs strategy_idx activate custom_duration st =
     (if 0 \<le> strategy_idx \<and> strategy_idx < int (length strategies) then
        (let strategy = strategies ! nat strategy_idx;
             is_one_time = (strategy \<in> ONE_TIME_STRATEGIES)
         in if activate then
              (if is_one_time then
                 (let st1 = afford_warning strategy st;
                      st2 = st1\<lparr>costs := costs st1 + IMPLEMENTATION strategy\<rparr>
                  in case execute_one_time_strategy rs strategy st2 of
                       Inl e \<Rightarrow> Inl e
                     | Inr st3 \<Rightarrow>
                         Inr (One_time_strategy_executed strategy,
                              st3\<lparr>strategy_changes_history := strategy_changes_history st3 @
                                    [(env_now st3, strategy, Executed_one_time)]\<rparr>))
               else if strategy \<notin> adaptation_strategies st then
                 (let st1 = afford_warning strategy st;
                      st2 = st1\<lparr>adaptation_strategies := insert strategy (adaptation_strategies st1)\<rparr>
                  in case custom_duration of
                       Some d \<Rightarrow>
                         if d > 0 then
                           Inr (Strategy_activated strategy,
                                apply_strategy_effects (DURATION(strategy := of_int d)) strategy True
                                  (log INFO ''Strategy'' st2))
                         else
                           Inr (Strategy_activated strategy,
                                apply_strategy_effects DURATION strategy True st2)
                     | None \<Rightarrow>
                         Inr (Strategy_activated strategy,
                              apply_strategy_effects DURATION strategy True st2))
               else Inr (No_change_already_active, st))
            else if \<not> is_one_time \<and> strategy \<in> adaptation_strategies st then
              (let implementation_time =
                     env_now st - (case map_of (strategy_implementation_dates st) strategy of
                                     None \<Rightarrow> 0 | Some t \<Rightarrow> t);
                   implementation_hours = implementation_time / 60;
                   st1 = (if implementation_hours < 24 then log WARNING ''Strategy'' st else st);
                   st2 = st1\<lparr>adaptation_strategies := adaptation_strategies st1 - {strategy}\<rparr>
               in Inr (Strategy_deactivated strategy,
                       apply_strategy_effects DURATION strategy False st2))
            else Inr (No_change_needed, st))
      else Inr (Invalid_strategy_index, st))"

section \<open>Orders and the production pipeline\<close>

text \<open>Each generator is cut at its \<^verbatim>\<open>yield\<close>s: one definition per segment, which runs the
  code up to the next \<^verbatim>\<open>yield\<close> and registers the continuation.\<close>

definition generate_orders_loop :: "factory \<Rightarrow> factory" where
  "generate_orders_loop st = timeout (24 * 60) GenerateOrders_body st"

definition generate_orders_body :: "rat list \<Rightarrow> factory \<Rightarrow> factory" where
  "generate_orders_body rs st =
     (let st1 = st\<lparr>daily_production := 0\<rparr>;
          daily_orders0 = py_int (current_order_rate st1);
          daily_orders = py_int (of_int daily_orders0 * uniform (6/10) (14/10) (draw rs 0));
          st2 = st1\<lparr>total_orders := total_orders st1 + daily_orders,
                     backlog := backlog st1 + daily_orders\<rparr>;
          st3 = process_backlog st2;
          st4 = (if raw_materials st3 < 200 \<and> \<not> supply_chain_disrupted st3
                 then env_process OrderRaw_start st3 else st3)
      in generate_orders_loop st4)"

definition order_raw_materials_start :: "factory \<Rightarrow> factory" where
  "order_raw_materials_start st =
     (let jit = (JUST_IN_TIME_REPLENISHMENT \<in> adaptation_strategies st);
          order_amount =
            (if jit then
               (let backlog_demand = of_int (backlog st * PARTS_PER_PRODUCT);
                    daily_part_demand = current_order_rate st * of_int PARTS_PER_PRODUCT;
                    safety_factor = 115/100;
                    needed_parts = max 0 (backlog_demand - of_int (parts_inventory st))
                                   + daily_part_demand * 5;
                    needed_raw = needed_parts * safety_factor
                in max 500 (min 1000 (py_int needed_raw)))
             else 500);
          st1 = (if jit then log INFO ''Inventory'' st else st);
          st2 = st1\<lparr>costs := costs st1 + of_int order_amount * RAW_MATERIAL_COST\<rparr>;
          delivery_time1 = (if jit then DELIVERY_TIME * (7/10) else DELIVERY_TIME);
          delivery_time = (if supply_chain_disrupted st2 then delivery_time1 * 2
                           else delivery_time1)
      in timeout delivery_time (OrderRaw_deliver order_amount) st2)"

definition order_raw_materials_deliver :: "int \<Rightarrow> factory \<Rightarrow> factory" where
  "order_raw_materials_deliver order_amount st =
     st\<lparr>raw_materials := raw_materials st + order_amount\<rparr>"

definition produce_parts_loop :: "factory \<Rightarrow> factory" where
  "produce_parts_loop st =
     (if power_outage st then timeout 10 ProduceParts_loop st
      else if raw_materials st \<le> 0 \<or> operational_cnc_machines st \<le> 0
              \<or> available_workers st \<le> 0
      then timeout 10 ProduceParts_loop st
      else (let (cnc_req, st1) = request (cnc_machines st) st
            in wait_for (ProduceParts_cnc cnc_req) st1))"

definition produce_parts_cnc :: "req \<Rightarrow> factory \<Rightarrow> factory" where
  "produce_parts_cnc cnc_req st =
     (let (worker_req, st1) = request (workers st) st
      in wait_for (ProduceParts_worker cnc_req worker_req) st1)"

definition produce_parts_worker :: "req \<Rightarrow> req \<Rightarrow> factory \<Rightarrow> factory" where
  "produce_parts_worker cnc_req worker_req st =
     (let st1 = st\<lparr>active_cnc_requests := active_cnc_requests st + 1,
                    active_worker_requests := active_worker_requests st + 1\<rparr>;
          batch_size = min 15 (raw_materials st1)
      in if batch_size \<le> 0 then
           produce_parts_loop
             (release cnc_req (release worker_req
                (st1\<lparr>active_cnc_requests := active_cnc_requests st1 - 1,
                     active_worker_requests := active_worker_requests st1 - 1\<rparr>)))
         else
           (let st2 = st1\<lparr>raw_materials := raw_materials st1 - batch_size\<rparr>;
                process_time0 = CNC_PROCESSING_TIME st2 * of_int batch_size;
                process_time = (if LEAN_MANUFACTURING \<in> adaptation_strategies st2
                                then process_time0 * (8/10) else process_time0)
            in timeout process_time (ProduceParts_done cnc_req worker_req batch_size) st2))"

definition produce_parts_done :: "req \<Rightarrow> req \<Rightarrow> int \<Rightarrow> factory \<Rightarrow> factory" where
  "produce_parts_done cnc_req worker_req batch_size st =
     produce_parts_loop
       (release cnc_req (release worker_req
          (st\<lparr>parts_inventory := parts_inventory st + batch_size,
              costs := costs st + of_int batch_size * 30,
              active_cnc_requests := active_cnc_requests st - 1,
              active_worker_requests := active_worker_requests st - 1\<rparr>)))"

definition assemble_products_loop :: "factory \<Rightarrow> factory" where
  "assemble_products_loop st =
     (if power_outage st then timeout 10 Assemble_loop st
      else if parts_inventory st < PARTS_PER_PRODUCT \<or> available_workers st \<le> 0
      then timeout 60 Assemble_loop st
      else
        (let st1 = st\<lparr>active_worker_requests := active_worker_requests st + 1\<rparr>
         in if active_worker_requests st1 > available_workers st1 then
              timeout 60 Assemble_loop
                (st1\<lparr>active_worker_requests := active_worker_requests st1 - 1\<rparr>)
            else
              (let (assembly_req, st2) = request (assembly_stations st1) st1;
                   (worker_req, st3) = request (workers st2) st2
               in wait_for (Assemble_acquired assembly_req worker_req) st3)))"

definition assemble_products_acquired :: "req \<Rightarrow> req \<Rightarrow> factory \<Rightarrow> factory" where
  "assemble_products_acquired assembly_req worker_req st =
     (let max_products = parts_inventory st div PARTS_PER_PRODUCT;
          batch_size = min 5 max_products;
          st1 = st\<lparr>parts_inventory := parts_inventory st - batch_size * PARTS_PER_PRODUCT\<rparr>;
          assembly_time0 = ASSEMBLY_TIME st1 * of_int batch_size;
          assembly_time = (if LEAN_MANUFACTURING \<in> adaptation_strategies st1
                           then assembly_time0 * (8/10) else assembly_time0)
      in timeout assembly_time (Assemble_done assembly_req worker_req batch_size) st1)"

definition assemble_products_done :: "rat list \<Rightarrow> req \<Rightarrow> req \<Rightarrow> int \<Rightarrow> factory \<Rightarrow> factory" where
  "assemble_products_done rs assembly_req worker_req batch_size st =
     (let assembled_products =
            (if has_quality_issue st \<and> draw rs 0 < 3/10
             then py_int (of_int batch_size * (7/10)) else batch_size);
          st1 = st\<lparr>costs := costs st + of_int batch_size * 50\<rparr>;
          st2 = ((\<lambda>s. env_process ProductToQc_start s) ^^ nat assembled_products) st1;
          st3 = st2\<lparr>active_worker_requests := active_worker_requests st2 - 1\<rparr>
      in assemble_products_loop (release assembly_req (release worker_req st3)))"

definition product_to_qc_start :: "factory \<Rightarrow> factory" where
  "product_to_qc_start st =
     (if power_outage st then timeout 10 ProductToQc_outage st
      else
        (let st1 = st\<lparr>active_qc_requests := active_qc_requests st + 1\<rparr>;
             (qc_req, st2) = request (qc_stations st1) st1;
             (worker_req, st3) = request (workers st2) st2
         in wait_for (ProductToQc_acquired qc_req worker_req) st3))"

definition product_to_qc_acquired :: "req \<Rightarrow> req \<Rightarrow> factory \<Rightarrow> factory" where
  "product_to_qc_acquired qc_req worker_req st =
     timeout QC_INSPECTION_TIME (ProductToQc_inspected qc_req worker_req) st"

text \<open>The classification of one inspected unit: the state with the quality counters
  updated, and whether a defect was reported.\<close>

definition classify_unit :: "rat list \<Rightarrow> factory \<Rightarrow> bool \<times> factory" where
  "classify_unit rs st =
     (let monitoring = (QUALITY_MONITORING \<in> adaptation_strategies st);
          is_defective = (draw rs 0 < defect_rate st)
      in if is_defective then
           (let detection_chance = (if monitoring then 98/100 else 9/10)
            in if draw rs 1 < detection_chance
               then (True, st\<lparr>defects_found := defects_found st + 1\<rparr>)
               else (False, st\<lparr>false_negatives := false_negatives st + 1\<rparr>))
         else
           (let false_positive_chance = (if monitoring then 2/100 else 5/100)
            in if draw rs 1 < false_positive_chance
               then (True, st\<lparr>false_positives := false_positives st + 1\<rparr>)
               else (False, st)))"

definition product_to_qc_inspected :: "rat list \<Rightarrow> req \<Rightarrow> req \<Rightarrow> factory \<Rightarrow> factory" where
  "product_to_qc_inspected rs qc_req worker_req st =
     (let st1 = st\<lparr>total_inspected := total_inspected st + 1\<rparr>;
          (defect_detected, st2) = classify_unit rs st1;
          st3 = (if \<not> defect_detected
                 then st2\<lparr>finished_products := finished_products st2 + 1\<rparr> else st2);
          st4 = st3\<lparr>active_qc_requests := active_qc_requests st3 - 1\<rparr>
      in release qc_req (release worker_req (process_backlog st4)))"

definition liquidate_inventory_start :: "factory \<Rightarrow> factory" where
  "liquidate_inventory_start st =
     (if INVENTORY_LIQUIDATION \<notin> adaptation_strategies st then st
      else
        (let excess_finished_products = max 0 (finished_products st - backlog st - 10)
         in if excess_finished_products \<le> 0 then st
            else
              (let discount_price = 1500 * (65/100);
                   liquidation_revenue' = of_int excess_finished_products * discount_price;
                   st1 = st\<lparr>finished_products := finished_products st - excess_finished_products,
                             liquidation_revenue := liquidation_revenue st + liquidation_revenue'\<rparr>
               in timeout (12 * 60) Liquidate_recheck (log INFO ''Inventory'' st1))))"

definition liquidate_inventory_recheck :: "factory \<Rightarrow> factory" where
  "liquidate_inventory_recheck st =
     (if INVENTORY_LIQUIDATION \<in> adaptation_strategies st
      then env_process Liquidate_start st else st)"

section \<open>Accounting and the hourly monitor\<close>

definition calculate_worker_costs_body :: "factory \<Rightarrow> factory" where
  "calculate_worker_costs_body st =
     (let daily_worker_hours = 8 * 3;
          total_worker_hours = of_int (available_workers st) * daily_worker_hours;
          daily_worker_cost = total_worker_hours * 25 * (13/10)
      in timeout (24 * 60) WorkerCosts_body
           (log INFO ''Finance'' (st\<lparr>costs := costs st + daily_worker_cost\<rparr>)))"

definition calculate_inventory_costs_body :: "factory \<Rightarrow> factory" where
  "calculate_inventory_costs_body st =
     (let raw_materials_cost = of_int (raw_materials st) * RAW_MATERIAL_COST * (2/1000);
          parts_cost = of_int (parts_inventory st) * 120 * (2/1000);
          finished_goods_cost = of_int (finished_products st) * FINISHED_PRODUCT_VALUE * (2/1000);
          daily_holding_cost = raw_materials_cost + parts_cost + finished_goods_cost
      in timeout (24 * 60) InventoryCosts_body
           (st\<lparr>inventory_holding_costs := inventory_holding_costs st + daily_holding_cost\<rparr>))"

text \<open>Python's \<^verbatim>\<open>x % m\<close> for a positive modulus.\<close>

definition py_mod :: "rat \<Rightarrow> rat \<Rightarrow> rat" where
  "py_mod x m = x - m * of_int \<lfloor>x / m\<rfloor>"

definition check_critical_conditions :: "factory \<Rightarrow> factory" where
  "check_critical_conditions st =
     (let st1 = (if raw_materials st < 100 then log WARNING ''Inventory'' st else st);
          st2 = (if of_int (backlog st1) > current_order_rate st1 * 5
                 then log WARNING ''Production'' st1 else st1);
          profits = metrics_history_profit st2;
          st3 = (if length profits \<ge> 24
                    \<and> (\<forall>p \<in> set (drop (length profits - 24) profits). p < 0)
                 then log WARNING ''Finance'' st2 else st2);
          st4 = (if of_int (operational_cnc_machines st3) < (of_int (NUM_CNC_MACHINES st3) :: rat) / 2
                 then log WARNING ''Equipment'' st3 else st3)
      in if of_int (available_workers st4) < (of_int (NUM_WORKERS st4) :: rat) / 2
         then log WARNING ''Workforce'' st4 else st4)"

definition monitor_metrics_loop :: "factory \<Rightarrow> factory" where
  "monitor_metrics_loop st =
     (let st1 = st\<lparr>current_time := env_now st,
                    metrics_history_profit := metrics_history_profit st @
                      [revenue st + liquidation_revenue st - costs st
                       - inventory_holding_costs st - energy_costs st]\<rparr>;
          st2 = (if current_time st1 > 0 \<and> py_mod (current_time st1) (7 * 24 * 60) < 60
                    \<and> strategy_weekly_costs st1 > 0
                 then log INFO ''Finance''
                        (st1\<lparr>costs := costs st1 + strategy_weekly_costs st1\<rparr>)
                 else st1)
      in timeout 60 MonitorMetrics_loop
           (check_strategy_expiration (check_critical_conditions st2)))"

section \<open>Disruptions\<close>

fun DisruptionType_value :: "DisruptionType \<Rightarrow> string" where
  "DisruptionType_value CNC_FAILURE = ''CNC Machine Failure''"
| "DisruptionType_value ORDER_SPIKE = ''Sudden Order Spike''"
| "DisruptionType_value SUPPLY_CHAIN = ''Supply Chain Disruption''"
| "DisruptionType_value WORKER_ABSENCE = ''Worker Absence''"
| "DisruptionType_value QUALITY_ISSUE = ''Quality Control Issue''"
| "DisruptionType_value POWER_OUTAGE = ''Power Outage''"
| "DisruptionType_value ORDER_CANCELLATION = ''Order Cancellation''"

text \<open>The head of every disruption: the history entry and \<^verbatim>\<open>publish_disruption\<close>, which
  logs the event with the disruption type as component.\<close>

definition record_disruption :: "DisruptionType \<Rightarrow> factory \<Rightarrow> factory" where
  "record_disruption kind st =
     log DISRUPTION (DisruptionType_value kind)
       (st\<lparr>disruptions_history := disruptions_history st @ [(env_now st, kind)]\<rparr>)"

definition order_cancellation_start :: "rat list \<Rightarrow> factory \<Rightarrow> factory" where
  "order_cancellation_start rs st =
     (if \<not> order_cancellation_active st \<and> backlog st > 0 then
        (let st1 = (record_disruption ORDER_CANCELLATION st)\<lparr>order_cancellation_active := True\<rparr>;
             cancellation_rate = uniform (2/10) (5/10) (draw rs 0);
             orders_to_cancel0 = py_int (of_int (backlog st1) * cancellation_rate);
             liquidation = (INVENTORY_LIQUIDATION \<in> adaptation_strategies st1);
             orders_to_cancel = (if liquidation then py_int (of_int orders_to_cancel0 * (6/10))
                                 else orders_to_cancel0);
             st2 = (if liquidation then env_process Liquidate_start (log INFO ''Inventory'' st1)
                    else st1);
             st3 = log WARNING ''Orders''
                     (st2\<lparr>backlog := backlog st2 - orders_to_cancel,
                          cancelled_orders := cancelled_orders st2 + orders_to_cancel\<rparr>);
             cancellation_revenue = of_int orders_to_cancel * 1500 * (1/10);
             st4 = st3\<lparr>revenue := revenue st3 + cancellation_revenue\<rparr>;
             st5 = (if cancellation_revenue > 0 then log INFO ''Finance'' st4 else st4);
             disruption_duration = of_int (randint 4 12 (draw rs 1) * 60)
         in timeout disruption_duration OrderCancellation_end st5)
      else st)"

definition order_cancellation_end :: "factory \<Rightarrow> factory" where
  "order_cancellation_end st = log INFO ''Orders'' (st\<lparr>order_cancellation_active := False\<rparr>)"

definition cnc_machine_failure_start :: "rat list \<Rightarrow> factory \<Rightarrow> factory" where
  "cnc_machine_failure_start rs st =
     (if operational_cnc_machines st > 0 then
        (let st1 = record_disruption CNC_FAILURE st;
             st2 = st1\<lparr>operational_cnc_machines := operational_cnc_machines st1 - 1\<rparr>;
             repair_time0 = of_int (randint 8 36 (draw rs 0) * 60);
             repair_cost_base0 = 5000;
             kits = (MODULAR_REPAIR_KITS \<in> adaptation_strategies st2);
             repair_time1 = (if kits then repair_time0 * (6/10) else repair_time0);
             st3 = (if kits then log INFO ''Maintenance'' st2 else st2);
             kpi = (KPI_MONITORING \<in> adaptation_strategies st3);
             repair_time = (if kpi then repair_time1 * (85/100) else repair_time1);
             repair_cost_base = (if kpi then repair_cost_base0 * (9/10) else repair_cost_base0);
             st4 = (if kpi then log INFO ''Maintenance'' st3 else st3);
             repair_cost = repair_cost_base + (repair_time / 60) * 250;
             st5 = log INFO ''Maintenance'' (st4\<lparr>costs := costs st4 + repair_cost\<rparr>)
         in timeout repair_time CncFailure_end st5)
      else st)"

definition cnc_machine_failure_end :: "factory \<Rightarrow> factory" where
  "cnc_machine_failure_end st =
     log INFO ''Maintenance'' (st\<lparr>operational_cnc_machines := operational_cnc_machines st + 1\<rparr>)"

definition order_spike_start :: "rat list \<Rightarrow> factory \<Rightarrow> factory" where
  "order_spike_start rs st =
     (let st1 = record_disruption ORDER_SPIKE st;
          spike_multiplier = uniform 2 4 (draw rs 0);
          original_rate = current_order_rate st1;
          st2 = st1\<lparr>current_order_rate := original_rate * spike_multiplier\<rparr>;
          spike_duration = of_int (randint 1 3 (draw rs 1) * 24 * 60);
          additional_orders =
            py_int ((current_order_rate st2 - original_rate) * (spike_duration / (24 * 60)));
          st3 = log INFO ''Orders'' st2;
          st4 = (if OUTSOURCING \<in> adaptation_strategies st3 then
                   (let outsourced_orders = py_int (of_int additional_orders * (6/10))
                    in log INFO ''Production''
                         (st3\<lparr>fulfilled_orders := fulfilled_orders st3 + outsourced_orders,
                              revenue := revenue st3 + of_int outsourced_orders * 1500,
                              costs := costs st3 + of_int outsourced_orders * 1200\<rparr>))
                 else st3)
      in if OVERTIME_POLICY \<in> adaptation_strategies st4 then
           (let overtime_factor = 13/10;
                old_assembly_time = ASSEMBLY_TIME st4;
                old_cnc_time = CNC_PROCESSING_TIME st4;
                st5 = st4\<lparr>ASSEMBLY_TIME := ASSEMBLY_TIME st4 / overtime_factor,
                          CNC_PROCESSING_TIME := CNC_PROCESSING_TIME st4 / overtime_factor\<rparr>;
                overtime_hours = spike_duration / 60;
                overtime_workers =
                  min (NUM_WORKERS st5) (NUM_CNC_MACHINES st5 + NUM_ASSEMBLY_STATIONS st5);
                overtime_cost = overtime_hours * of_int overtime_workers * 50 * (5/10);
                st6 = log INFO ''Workforce'' (st5\<lparr>costs := costs st5 + overtime_cost\<rparr>)
            in timeout spike_duration
                 (OrderSpike_end original_rate (Some (old_assembly_time, old_cnc_time))) st6)
         else timeout spike_duration (OrderSpike_end original_rate None) st4)"

definition order_spike_end :: "rat \<Rightarrow> (rat \<times> rat) option \<Rightarrow> factory \<Rightarrow> factory" where
  "order_spike_end original_rate old_times st =
     (let st1 = (case old_times of
                   None \<Rightarrow> st
                 | Some (old_assembly_time, old_cnc_time) \<Rightarrow>
                     st\<lparr>ASSEMBLY_TIME := old_assembly_time,
                        CNC_PROCESSING_TIME := old_cnc_time\<rparr>)
      in log INFO ''Orders'' (st1\<lparr>current_order_rate := original_rate\<rparr>))"

definition supply_chain_disruption_start :: "rat list \<Rightarrow> factory \<Rightarrow> factory" where
  "supply_chain_disruption_start rs st =
     (if \<not> supply_chain_disrupted st then
        (let st1 = (record_disruption SUPPLY_CHAIN st)\<lparr>supply_chain_disrupted := True\<rparr>;
             disruption_duration0 = of_int (randint 2 7 (draw rs 0) * 24 * 60);
             disruption_duration =
               (if SUPPLIER_DIVERSIFICATION \<in> adaptation_strategies st1
                then disruption_duration0 * (5/10) else disruption_duration0)
         in timeout disruption_duration SupplyChain_end st1)
      else st)"

definition supply_chain_disruption_end :: "factory \<Rightarrow> factory" where
  "supply_chain_disruption_end st = st\<lparr>supply_chain_disrupted := False\<rparr>"

definition worker_absence_start :: "int \<Rightarrow> rat list \<Rightarrow> factory \<Rightarrow> factory" where
  "worker_absence_start max_absent rs st =
     (let num_absent = min (randint 1 max_absent (draw rs 0)) (available_workers st)
      in if num_absent > 0 then
           (let st1 = record_disruption WORKER_ABSENCE st;
                st2 = st1\<lparr>available_workers := available_workers st1 - num_absent\<rparr>;
                absence_duration = of_int (randint 1 3 (draw rs 1) * 24 * 60);
                st3 = (if OVERTIME_POLICY \<in> adaptation_strategies st2 then
                         (let effective_absent = of_int num_absent * (6/10)
                          in st2\<lparr>costs := costs st2 + absence_duration / 60 * effective_absent * 30\<rparr>)
                       else st2)
            in timeout absence_duration (WorkerAbsence_end num_absent) st3)
         else st)"

definition worker_absence_end :: "int \<Rightarrow> factory \<Rightarrow> factory" where
  "worker_absence_end num_absent st =
     st\<lparr>available_workers := available_workers st + num_absent\<rparr>"

definition quality_control_issue_start :: "rat \<Rightarrow> factory \<Rightarrow> factory" where
  "quality_control_issue_start duration st =
     (if \<not> has_quality_issue st then
        (let st1 = (record_disruption QUALITY_ISSUE st)\<lparr>has_quality_issue := True\<rparr>;
             defective_rate = (if QUALITY_MONITORING \<in> adaptation_strategies st1
                               then 15/100 else 4/10);
             defective_products = py_int (of_int (finished_products st1) * defective_rate);
             st2 = st1\<lparr>finished_products := finished_products st1 - defective_products,
                       defect_rate := defective_rate,
                       defects_found := defects_found st1 + defective_products,
                       costs := costs st1 + of_int defective_products * 300\<rparr>
         in timeout duration QualityIssue_end st2)
      else st)"

definition quality_control_issue_end :: "factory \<Rightarrow> factory" where
  "quality_control_issue_end st = st\<lparr>has_quality_issue := False, defect_rate := 2/100\<rparr>"

definition power_outage_event_start :: "rat list \<Rightarrow> factory \<Rightarrow> factory" where
  "power_outage_event_start rs st =
     (if \<not> power_outage st then
        (let st1 = (record_disruption POWER_OUTAGE st)\<lparr>power_outage := True\<rparr>;
             outage_duration0 = of_int (randint 45 360 (draw rs 0));
             hourly_production_rate = current_order_rate st1 / 24;
             estimated_lost_production = hourly_production_rate * (outage_duration0 / 60);
             peak = (PEAK_LOAD_OPTIMIZATION \<in> adaptation_strategies st1);
             outage_duration = (if peak then outage_duration0 * (6/10) else outage_duration0);
             st2 = (if peak then log INFO ''Power'' st1 else st1);
             restart_cost = 5000;
             lost_production_cost = estimated_lost_production * FINISHED_PRODUCT_VALUE;
             equipment_stress_cost = 250 * of_int (operational_cnc_machines st2);
             total_outage_cost = restart_cost + lost_production_cost + equipment_stress_cost;
             st3 = log WARNING ''Power'' (st2\<lparr>costs := costs st2 + total_outage_cost\<rparr>)
         in timeout outage_duration PowerOutage_end st3)
      else st)"

definition power_outage_event_end :: "factory \<Rightarrow> factory" where
  "power_outage_event_end st = log INFO ''Power'' (st\<lparr>power_outage := False\<rparr>)"

text \<open>One round of \<^verbatim>\<open>generate_disruptions\<close> after its six-hour wait. The draws have fixed
  positions: 0, 2, 3, 5, 6, 7, 8 decide whether the seven kinds fire, 1 and 4 are the luck
  of preventive maintenance and of supplier diversification.\<close>

definition generate_disruptions_body :: "rat list \<Rightarrow> factory \<Rightarrow> factory" where
  "generate_disruptions_body rs st =
     (let st1 = (if draw rs 0 < CNC_FAILURE_CHANCE st / 4 then
                   (if PREVENTIVE_MAINTENANCE \<in> adaptation_strategies st \<and> draw rs 1 < 7/10
                    then st else env_process CncFailure_start st)
                 else st);
          st2 = (if draw rs 2 < (5/100) / 4 then env_process OrderSpike_start st1 else st1);
          st3 = (if draw rs 3 < SUPPLY_CHAIN_ISSUE_CHANCE st2 / 4 then
                   (if SUPPLIER_DIVERSIFICATION \<in> adaptation_strategies st2 \<and> draw rs 4 < 8/10
                    then st2 else env_process SupplyChain_start st2)
                 else st2);
          st4 = (if draw rs 5 < (8/100) / 4 then
                   (if FLEXIBLE_WORKFORCE \<in> adaptation_strategies st3
                    then env_process (WorkerAbsence_start 1) st3
                    else env_process (WorkerAbsence_start 3) st3)
                 else st3);
          st5 = (if draw rs 6 < QUALITY_ISSUE_CHANCE st4 / 4 then
                   (if QUALITY_MONITORING \<in> adaptation_strategies st4
                    then env_process (QualityIssue_start (4 * 60)) st4
                    else env_process (QualityIssue_start (12 * 60)) st4)
                 else st4);
          st6 = (if draw rs 7 < POWER_OUTAGE_CHANCE st5 / 4
                 then env_process PowerOutage_start st5 else st5);
          st7 = (if draw rs 8 < (1/10) / 4
                 then env_process OrderCancellation_start st6 else st6)
      in timeout (6 * 60) GenerateDisruptions_body st7)"

section \<open>The timed effects of one-time strategies\<close>

definition restore_power_risk_end :: "rat \<Rightarrow> factory \<Rightarrow> factory" where
  "restore_power_risk_end old_chance st =
     log INFO ''Infrastructure'' (st\<lparr>POWER_OUTAGE_CHANCE := old_chance\<rparr>)"

definition restore_failure_chance_end :: "rat \<Rightarrow> factory \<Rightarrow> factory" where
  "restore_failure_chance_end old_failure_chance st =
     log INFO ''Maintenance'' (st\<lparr>CNC_FAILURE_CHANCE := old_failure_chance\<rparr>)"

definition bulk_delivery_start :: "factory \<Rightarrow> factory" where
  "bulk_delivery_start st =
     (let first_batch = 2000 div 3
      in timeout (24 * 60) (BulkDelivery_second first_batch)
           (log INFO ''Inventory'' (st\<lparr>raw_materials := raw_materials st + first_batch\<rparr>)))"

definition bulk_delivery_second :: "int \<Rightarrow> factory \<Rightarrow> factory" where
  "bulk_delivery_second first_batch st =
     (let second_batch = 2000 div 3
      in timeout (24 * 60) (BulkDelivery_third first_batch second_batch)
           (log INFO ''Inventory'' (st\<lparr>raw_materials := raw_materials st + second_batch\<rparr>)))"

definition bulk_delivery_third :: "int \<Rightarrow> int \<Rightarrow> factory \<Rightarrow> factory" where
  "bulk_delivery_third first_batch second_batch st =
     (let third_batch = 2000 - first_batch - second_batch
      in log INFO ''Inventory'' (st\<lparr>raw_materials := raw_materials st + third_batch\<rparr>))"

definition restore_process_times_end :: "rat \<Rightarrow> rat \<Rightarrow> factory \<Rightarrow> factory" where
  "restore_process_times_end old_assembly_time old_cnc_time st =
     log INFO ''Workforce''
       (st\<lparr>ASSEMBLY_TIME := old_assembly_time, CNC_PROCESSING_TIME := old_cnc_time\<rparr>)"

section \<open>The scheduler\<close>

text \<open>Resuming a process: the segment that starts at the point where it is suspended.\<close>

fun run :: "rat list \<Rightarrow> proc \<Rightarrow> factory \<Rightarrow> factory" where
  "run rs GenerateOrders_loop st = generate_orders_loop st"
| "run rs GenerateOrders_body st = generate_orders_body rs st"
| "run rs WorkerCosts_loop st = timeout (24 * 60) WorkerCosts_body st"
| "run rs WorkerCosts_body st = calculate_worker_costs_body st"
| "run rs InventoryCosts_loop st = timeout (24 * 60) InventoryCosts_body st"
| "run rs InventoryCosts_body st = calculate_inventory_costs_body st"
| "run rs MonitorMetrics_loop st = monitor_metrics_loop st"
| "run rs GenerateDisruptions_loop st = timeout (6 * 60) GenerateDisruptions_body st"
| "run rs GenerateDisruptions_body st = generate_disruptions_body rs st"
| "run rs ProduceParts_loop st = produce_parts_loop st"
| "run rs (ProduceParts_cnc c) st = produce_parts_cnc c st"
| "run rs (ProduceParts_worker c w) st = produce_parts_worker c w st"
| "run rs (ProduceParts_done c w b) st = produce_parts_done c w b st"
| "run rs Assemble_loop st = assemble_products_loop st"
| "run rs (Assemble_acquired a w) st = assemble_products_acquired a w st"
| "run rs (Assemble_done a w b) st = assemble_products_done rs a w b st"
| "run rs ProductToQc_start st = product_to_qc_start st"
| "run rs ProductToQc_outage st = st"
| "run rs (ProductToQc_acquired q w) st = product_to_qc_acquired q w st"
| "run rs (ProductToQc_inspected q w) st = product_to_qc_inspected rs q w st"
| "run rs Liquidate_start st = liquidate_inventory_start st"
| "run rs Liquidate_recheck st = liquidate_inventory_recheck st"
| "run rs OrderRaw_start st = order_raw_materials_start st"
| "run rs (OrderRaw_deliver n) st = order_raw_materials_deliver n st"
| "run rs OrderCancellation_start st = order_cancellation_start rs st"
| "run rs OrderCancellation_end st = order_cancellation_end st"
| "run rs CncFailure_start st = cnc_machine_failure_start rs st"
| "run rs CncFailure_end st = cnc_machine_failure_end st"
| "run rs OrderSpike_start st = order_spike_start rs st"
| "run rs (OrderSpike_end r t) st = order_spike_end r t st"
| "run rs SupplyChain_start st = supply_chain_disruption_start rs st"
| "run rs SupplyChain_end st = supply_chain_disruption_end st"
| "run rs (WorkerAbsence_start m) st = worker_absence_start m rs st"
| "run rs (WorkerAbsence_end n) st = worker_absence_end n st"
| "run rs (QualityIssue_start d) st = quality_control_issue_start d st"
| "run rs QualityIssue_end st = quality_control_issue_end st"
| "run rs PowerOutage_start st = power_outage_event_start rs st"
| "run rs PowerOutage_end st = power_outage_event_end st"
| "run rs (RestorePowerRisk_start c) st = timeout (24 * 60) (RestorePowerRisk_end c) st"
| "run rs (RestorePowerRisk_end c) st = restore_power_risk_end c st"
| "run rs (RestoreFailureChance_start c) st = timeout (48 * 60) (RestoreFailureChance_end c) st"
| "run rs (RestoreFailureChance_end c) st = restore_failure_chance_end c st"
| "run rs BulkDelivery_start st = bulk_delivery_start st"
| "run rs (BulkDelivery_second f) st = bulk_delivery_second f st"
| "run rs (BulkDelivery_third f s) st = bulk_delivery_third f s st"
| "run rs (RestoreProcessTimes_start a c) st = timeout (8 * 60) (RestoreProcessTimes_end a c) st"
| "run rs (RestoreProcessTimes_end a c) st = restore_process_times_end a c st"
| "run rs (EndOvertime_start a c) st = timeout (24 * 60) (EndOvertime_end a c) st"
| "run rs (EndOvertime_end a c) st = restore_process_times_end a c st"

text \<open>A process blocked on requests can go on when all of them are granted.\<close>

fun ready :: "factory \<Rightarrow> proc \<Rightarrow> bool" where
  "ready st (ProduceParts_cnc c) = granted st c"
| "ready st (ProduceParts_worker c w) = granted st w"
| "ready st (Assemble_acquired a w) = (granted st a \<and> granted st w)"
| "ready st (ProductToQc_acquired q w) = (granted st q \<and> granted st w)"
| "ready st _ = False"

text \<open>The requests a blocked process has been granted while it still waits for another.\<close>

fun holds_while_blocked :: "factory \<Rightarrow> proc \<Rightarrow> bool" where
  "holds_while_blocked st (Assemble_acquired a w) =
     ((granted st a \<and> waiting st w) \<or> (granted st w \<and> waiting st a))"
| "holds_while_blocked st (ProductToQc_acquired q w) =
     ((granted st q \<and> waiting st w) \<or> (granted st w \<and> waiting st q))"
| "holds_while_blocked st _ = False"

text \<open>The next scheduled resumption: the earliest time, and among equal times the one
  scheduled first.\<close>

fun earliest :: "(rat \<times> proc) list \<Rightarrow> (rat \<times> proc) option" where
  "earliest [] = None"
| "earliest (e # es) =
     (case earliest es of
        None \<Rightarrow> Some e
      | Some e' \<Rightarrow> if fst e \<le> fst e' then Some e else Some e')"

definition fire :: "rat list \<Rightarrow> rat \<times> proc \<Rightarrow> factory \<Rightarrow> factory" where
  "fire rs e st = run rs (snd e) (st\<lparr>env_now := fst e, events := remove1 e (events st)\<rparr>)"

definition run_next :: "rat list \<Rightarrow> factory \<Rightarrow> factory" where
  "run_next rs st = (case earliest (events st) of None \<Rightarrow> st | Some e \<Rightarrow> fire rs e st)"

definition resume :: "rat list \<Rightarrow> proc \<Rightarrow> factory \<Rightarrow> factory" where
  "resume rs p st = run rs p (st\<lparr>blocked := remove1 p (blocked st)\<rparr>)"

text \<open>\<^verbatim>\<open>MQTTValueFactory.__init__\<close> with the module's initial constants: the four pools are
  created in the order CNC machines, assembly stations, QC stations, workers, and the
  processes are started in the order of the constructor (the telemetry processes left out).\<close>

definition MQTTValueFactory_init :: factory where
  "MQTTValueFactory_init =
     \<lparr>NUM_CNC_MACHINES = 5, NUM_ASSEMBLY_STATIONS = 4, NUM_WORKERS = 12,
      CNC_PROCESSING_TIME = 45, ASSEMBLY_TIME = 30,
      CNC_FAILURE_CHANCE = 15/100, SUPPLY_CHAIN_ISSUE_CHANCE = 8/100,
      QUALITY_ISSUE_CHANCE = 7/100, POWER_OUTAGE_CHANCE = 1/10,
      env_now = 0,
      events = [(0, GenerateOrders_loop), (0, WorkerCosts_loop), (0, MonitorMetrics_loop),
                (0, GenerateDisruptions_loop),
                (0, ProduceParts_loop), (0, ProduceParts_loop), (0, ProduceParts_loop),
                (0, ProduceParts_loop), (0, ProduceParts_loop),
                (0, Assemble_loop), (0, Assemble_loop), (0, Assemble_loop), (0, Assemble_loop),
                (0, InventoryCosts_loop)],
      blocked = [],
      resources = [\<lparr>capacity = 5, users = [], put_queue = []\<rparr>,
                   \<lparr>capacity = 4, users = [], put_queue = []\<rparr>,
                   \<lparr>capacity = 3, users = [], put_queue = []\<rparr>,
                   \<lparr>capacity = 12, users = [], put_queue = []\<rparr>],
      next_request = 0,
      cnc_machines = 0, assembly_stations = 1, qc_stations = 2, workers = 3,
      operational_cnc_machines = 5, available_workers = 12,
      raw_materials = 500, parts_inventory = 80, finished_products = 0, backlog = 0,
      total_orders = 0, fulfilled_orders = 0, cancelled_orders = 0,
      revenue = 0, costs = 0, inventory_holding_costs = 0, energy_costs = 0,
      liquidation_revenue = 0,
      current_order_rate = 25,
      supply_chain_disrupted = False, has_quality_issue = False, power_outage = False,
      order_cancellation_active = False,
      daily_production = 0,
      defect_rate = 2/100, defects_found = 0, total_inspected = 0, false_positives = 0,
      false_negatives = 0,
      cnc_temperatures = [20, 20, 20, 20, 20],
      cnc_vibrations = [1/10, 1/10, 1/10, 1/10, 1/10],
      active_cnc_requests = 0, active_worker_requests = 0, active_qc_requests = 0,
      adaptation_strategies = {},
      strategy_implementation_dates = [], strategy_expiration_times = [],
      strategy_weekly_costs = 0,
      disruptions_history = [], strategy_changes_history = [],
      logs = [(0, INFO, ''System'')],
      metrics_history_profit = [],
      paused = False, current_time = 0\<rparr>"

section \<open>Command ingress\<close>

text \<open>
  An MQTT message is a topic and a payload. \<^verbatim>\<open>json.loads(msg.payload.decode())\<close> is library
  code with three outcomes: the bytes are not UTF-8 (UnicodeDecodeError), the text is not
  JSON (JSONDecodeError), or a JSON value. \<^verbatim>\<open>print\<close> writes to the console, which is not
  part of the state; only \<^verbatim>\<open>self.log\<close> adds a log entry.
\<close>

datatype py_float = Finite rat | Infinite | NaN

datatype json =
  JNull | JBool bool | JNum py_float | JStr string | JList "json list"
| JObj "(string \<times> json) list"

datatype mqtt_payload = Not_utf8 | Not_json | Json json

text \<open>What leaves a callback: an exception that no handler catches, or \<^verbatim>\<open>sys.exit(0)\<close>
  (SystemExit is not an \<^verbatim>\<open>Exception\<close>, so \<^verbatim>\<open>except Exception\<close> lets it pass).\<close>

datatype escape = Uncaught py_error | SystemExit

definition STRATEGY_COMMAND :: string where "STRATEGY_COMMAND = ''factory/command/strategy''"
definition SIMULATION_COMMAND :: string where "SIMULATION_COMMAND = ''factory/command/simulation''"

fun name_of :: "AdaptationStrategy \<Rightarrow> string" where
  "name_of PREVENTIVE_MAINTENANCE = ''PREVENTIVE_MAINTENANCE''"
| "name_of FLEXIBLE_WORKFORCE = ''FLEXIBLE_WORKFORCE''"
| "name_of JUST_IN_TIME_REPLENISHMENT = ''JUST_IN_TIME_REPLENISHMENT''"
| "name_of SUPPLIER_DIVERSIFICATION = ''SUPPLIER_DIVERSIFICATION''"
| "name_of OVERTIME_POLICY = ''OVERTIME_POLICY''"
| "name_of QUALITY_MONITORING = ''QUALITY_MONITORING''"
| "name_of KPI_MONITORING = ''KPI_MONITORING''"
| "name_of MODULAR_REPAIR_KITS = ''MODULAR_REPAIR_KITS''"
| "name_of OUTSOURCING = ''OUTSOURCING''"
| "name_of LEAN_MANUFACTURING = ''LEAN_MANUFACTURING''"
| "name_of PEAK_LOAD_OPTIMIZATION = ''PEAK_LOAD_OPTIMIZATION''"
| "name_of INVENTORY_LIQUIDATION = ''INVENTORY_LIQUIDATION''"
| "name_of PURCHASE_CNC_MACHINE = ''PURCHASE_CNC_MACHINE''"
| "name_of SELL_CNC_MACHINE = ''SELL_CNC_MACHINE''"
| "name_of HIRE_WORKERS = ''HIRE_WORKERS''"
| "name_of REDUCE_WORKFORCE = ''REDUCE_WORKFORCE''"
| "name_of EMERGENCY_MATERIALS = ''EMERGENCY_MATERIALS''"
| "name_of UPGRADE_ASSEMBLY = ''UPGRADE_ASSEMBLY''"
| "name_of INSTALL_BACKUP_GENERATOR = ''INSTALL_BACKUP_GENERATOR''"
| "name_of EXPEDITE_MAINTENANCE = ''EXPEDITE_MAINTENANCE''"
| "name_of BULK_ORDER_MATERIALS = ''BULK_ORDER_MATERIALS''"
| "name_of CANCEL_PENDING_ORDERS = ''CANCEL_PENDING_ORDERS''"
| "name_of REALLOCATE_WORKERS = ''REALLOCATE_WORKERS''"
| "name_of SCHEDULE_OVERTIME = ''SCHEDULE_OVERTIME''"

fun starts_with :: "string \<Rightarrow> string \<Rightarrow> bool" where
  "starts_with [] s = True"
| "starts_with (k # ks) [] = False"
| "starts_with (k # ks) (c # cs) = (k = c \<and> starts_with ks cs)"

fun contains_str :: "string \<Rightarrow> string \<Rightarrow> bool" where
  "contains_str k [] = (k = [])"
| "contains_str k (c # cs) = (starts_with k (c # cs) \<or> contains_str k cs)"

text \<open>\<^verbatim>\<open>topic.split('/')[-1]\<close>.\<close>

definition last_segment :: "string \<Rightarrow> string" where
  "last_segment topic = rev (takeWhile (\<lambda>c. c \<noteq> CHR ''/'') (rev topic))"

text \<open>\<^verbatim>\<open>str.lower()\<close> on the ASCII letters (no other character lowers to a letter of
  \<^verbatim>\<open>pause\<close>, \<^verbatim>\<open>resume\<close> or \<^verbatim>\<open>stop\<close>).\<close>

definition lower_char :: "char \<Rightarrow> char" where
  "lower_char c = (let n = (of_char c :: nat)
                   in if 65 \<le> n \<and> n \<le> 90 then char_of (n + 32) else c)"

definition lower :: "string \<Rightarrow> string" where
  "lower s = map lower_char s"

text \<open>\<^verbatim>\<open>key in payload\<close> and \<^verbatim>\<open>payload[key]\<close> for a string key; \<open>None\<close> is the TypeError (or
  KeyError) that Python raises.\<close>

fun py_contains :: "string \<Rightarrow> json \<Rightarrow> bool option" where
  "py_contains k (JObj kvs) = Some (k \<in> fst ` set kvs)"
| "py_contains k (JList xs) = Some (JStr k \<in> set xs)"
| "py_contains k (JStr s) = Some (contains_str k s)"
| "py_contains k _ = None"

fun py_getitem :: "json \<Rightarrow> string \<Rightarrow> json option" where
  "py_getitem (JObj kvs) k = map_of kvs k"
| "py_getitem _ k = None"

text \<open>\<^verbatim>\<open>float(v)\<close>; \<open>fos\<close> is Python's parser of a float from a string.\<close>

fun py_float_conv :: "(string \<Rightarrow> py_float option) \<Rightarrow> json \<Rightarrow> py_error + py_float" where
  "py_float_conv fos (JNum f) = Inr f"
| "py_float_conv fos (JBool b) = Inr (Finite (if b then 1 else 0))"
| "py_float_conv fos (JStr s) = (case fos s of None \<Rightarrow> Inl ValueError | Some f \<Rightarrow> Inr f)"
| "py_float_conv fos _ = Inl TypeError"

text \<open>\<^verbatim>\<open>'trigger' in payload and payload['trigger'] is b\<close>; \<open>None\<close> when it raises.\<close>

definition trigger_is :: "json \<Rightarrow> bool \<Rightarrow> bool option" where
  "trigger_is payload b =
     (case py_contains ''trigger'' payload of
        None \<Rightarrow> None
      | Some False \<Rightarrow> Some False
      | Some True \<Rightarrow> (case py_getitem payload ''trigger'' of
                       None \<Rightarrow> None
                     | Some v \<Rightarrow> Some (v = JBool b)))"

text \<open>The optional \<^verbatim>\<open>duration\<close> field, in days: the custom duration in minutes with the
  state after a possible warning, or the exception that reaches the outer handler.\<close>

definition custom_duration_of ::
  "(string \<Rightarrow> py_float option) \<Rightarrow> json \<Rightarrow> factory \<Rightarrow> py_error + (int option \<times> factory)" where
  "custom_duration_of fos payload st =
     (case py_contains ''duration'' payload of
        None \<Rightarrow> Inl TypeError
      | Some False \<Rightarrow> Inr (None, st)
      | Some True \<Rightarrow>
          (case py_getitem payload ''duration'' of
             None \<Rightarrow> Inl TypeError
           | Some v \<Rightarrow>
               (case py_float_conv fos v of
                  Inl e \<Rightarrow> Inr (None, log WARNING ''Strategy'' st)
                | Inr NaN \<Rightarrow> Inr (None, log WARNING ''Strategy'' st)
                | Inr Infinite \<Rightarrow> Inl OverflowError
                | Inr (Finite days) \<Rightarrow> Inr (Some (py_int (days * 24 * 60)), st))))"

definition index_of :: "AdaptationStrategy \<Rightarrow> int" where
  "index_of strategy = int (length (takeWhile (\<lambda>s. s \<noteq> strategy) strategies))"

definition handle_direct_strategy_command ::
  "(string \<Rightarrow> py_float option) \<Rightarrow> rat list \<Rightarrow> string \<Rightarrow> json \<Rightarrow> factory \<Rightarrow> factory" where
  "handle_direct_strategy_command fos rs topic payload st =
     (let strategy_name = last_segment topic;
          matching_strategies = filter (\<lambda>s. name_of s = strategy_name) strategies
      in case trigger_is payload True of
           None \<Rightarrow> log ERROR ''Strategy'' st
         | Some True \<Rightarrow>
             (case matching_strategies of
                [] \<Rightarrow> log ERROR ''Strategy'' st
              | strategy # _ \<Rightarrow>
                  (case custom_duration_of fos payload st of
                     Inl e \<Rightarrow> log ERROR ''Strategy'' st
                   | Inr (custom_duration, st1) \<Rightarrow>
                       (case modify_strategy rs (index_of strategy) True custom_duration st1 of
                          Inl (e, st2) \<Rightarrow> log ERROR ''Strategy'' st2
                        | Inr (res, st2) \<Rightarrow> log STRATEGY ''Command'' st2)))
         | Some False \<Rightarrow>
             (case trigger_is payload False of
                None \<Rightarrow> log ERROR ''Strategy'' st
              | Some True \<Rightarrow>
                  (case matching_strategies of
                     [] \<Rightarrow> log ERROR ''Strategy'' st
                   | strategy # _ \<Rightarrow>
                       (case modify_strategy rs (index_of strategy) False None st of
                          Inl (e, st2) \<Rightarrow> log ERROR ''Strategy'' st2
                        | Inr (res, st2) \<Rightarrow> log STRATEGY ''Command'' st2))
              | Some False \<Rightarrow> log WARNING ''Strategy'' st))"

text \<open>\<^verbatim>\<open>str(payload["command"]).lower()\<close>: a JSON value that is not a string prints as
  a number, a list, a dictionary or one of True, False, None, never as a command word.\<close>

definition handle_simulation_command :: "json \<Rightarrow> factory \<Rightarrow> escape \<times> factory + factory" where
  "handle_simulation_command payload st =
     (case py_contains ''command'' payload of
        None \<Rightarrow> Inr (log ERROR ''Simulation'' st)
      | Some False \<Rightarrow> Inr (log ERROR ''Simulation'' st)
      | Some True \<Rightarrow>
          (case py_getitem payload ''command'' of
             None \<Rightarrow> Inr (log ERROR ''Simulation'' st)
           | Some (JStr c) \<Rightarrow>
               (let command = lower c
                in if command = ''pause'' then Inr (log INFO ''Simulation'' (st\<lparr>paused := True\<rparr>))
                   else if command = ''resume''
                   then Inr (log INFO ''Simulation'' (st\<lparr>paused := False\<rparr>))
                   else if command = ''stop'' then Inl (SystemExit, log INFO ''Simulation'' st)
                   else Inr (log WARNING ''Simulation'' st))
           | Some _ \<Rightarrow> Inr (log WARNING ''Simulation'' st)))"

text \<open>\<^verbatim>\<open>on_mqtt_message\<close>. The class has no method \<^verbatim>\<open>handle_strategy_command\<close>: the call on
  the strategy command topic raises AttributeError, which the handler prints. The
  handler of \<^verbatim>\<open>Exception\<close> decodes the payload again for its message, so bytes that are
  not UTF-8 raise a second time, out of the callback.\<close>

definition on_mqtt_message ::
  "(string \<Rightarrow> py_float option) \<Rightarrow> rat list \<Rightarrow> string \<Rightarrow> mqtt_payload \<Rightarrow> factory
     \<Rightarrow> escape \<times> factory + factory" where
  "on_mqtt_message fos rs topic msg st =
     (case msg of
        Not_utf8 \<Rightarrow> Inl (Uncaught UnicodeDecodeError, st)
      | Not_json \<Rightarrow> Inr st
      | Json payload \<Rightarrow>
          if topic = STRATEGY_COMMAND then Inr st
          else if topic = SIMULATION_COMMAND then handle_simulation_command payload st
          else if starts_with ''factory/command/'' topic
          then Inr (handle_direct_strategy_command fos rs topic payload st)
          else Inr st)"

section \<open>Reachable states\<close>

text \<open>
  One step of the simulation: the scheduler resumes a process whose time has come (no
  scheduled resumption is earlier) or whose requests are granted, an MQTT message is
  handled (between two segments: the callback is taken as atomic), or the telemetry
  processes that are not modelled write their own attributes. The draws of a step are
  arbitrary numbers of the unit interval.
\<close>

inductive step :: "factory \<Rightarrow> factory \<Rightarrow> bool" where
  step_fire:
    "e \<in> set (events st) \<Longrightarrow> \<forall>e' \<in> set (events st). fst e \<le> fst e' \<Longrightarrow> unit_draws rs
       \<Longrightarrow> step st (fire rs e st)"
| step_resume:
    "p \<in> set (blocked st) \<Longrightarrow> ready st p \<Longrightarrow> unit_draws rs \<Longrightarrow> step st (resume rs p st)"
| step_message:
    "unit_draws rs \<Longrightarrow> on_mqtt_message fos rs topic msg st = Inr st' \<Longrightarrow> step st st'"
| step_message_escape:
    "unit_draws rs \<Longrightarrow> on_mqtt_message fos rs topic msg st = Inl (x, st') \<Longrightarrow> step st st'"
| step_telemetry:
    "length ts = length (cnc_temperatures st) \<Longrightarrow> length vs = length (cnc_vibrations st)
       \<Longrightarrow> step st (st\<lparr>energy_costs := c, cnc_temperatures := ts, cnc_vibrations := vs\<rparr>)"

definition reachable :: "factory \<Rightarrow> bool" where
  "reachable st = step\<^sup>*\<^sup>* MQTTValueFactory_init st"

section \<open>Predicates on pools\<close>

text \<open>No request identifier in a resource is ahead of the counter that numbers them.\<close>

definition fresh_requests :: "factory \<Rightarrow> bool" where
  "fresh_requests st =
     (\<forall>r \<in> set (resources st). \<forall>i \<in> set (users r) \<union> set (put_queue r). i < next_request st)"

text \<open>The resource at address \<open>a\<close> has nobody waiting and a slot left.\<close>

definition free_slot :: "factory \<Rightarrow> nat \<Rightarrow> bool" where
  "free_slot st a = (put_queue (resources st ! a) = []
                     \<and> in_use st a < capacity (resources st ! a))"

text \<open>From \<open>st\<close> to \<open>st'\<close> the store has grown by one fresh resource of capacity \<open>c\<close> at
  address \<open>p\<close>, and nothing else in it has changed.\<close>

definition pool_replaced :: "factory \<Rightarrow> factory \<Rightarrow> nat \<Rightarrow> int \<Rightarrow> bool" where
  "pool_replaced st st' p c =
     (p = length (resources st)
      \<and> resources st' = resources st @ [\<lparr>capacity = c, users = [], put_queue = []\<rparr>]
      \<and> 0 < c)"

section \<open>Concrete states used as inputs\<close>

definition factory_backlog_10 :: factory where
  "factory_backlog_10 = MQTTValueFactory_init\<lparr>backlog := 10\<rparr>"

definition factory_stock_7_backlog_4 :: factory where
  "factory_stock_7_backlog_4 = MQTTValueFactory_init\<lparr>finished_products := 7, backlog := 4\<rparr>"

definition factory_power_out :: factory where
  "factory_power_out = MQTTValueFactory_init\<lparr>power_outage := True\<rparr>"

definition factory_no_materials :: factory where
  "factory_no_materials = MQTTValueFactory_init\<lparr>raw_materials := 0\<rparr>"

definition factory_few_parts :: factory where
  "factory_few_parts = MQTTValueFactory_init\<lparr>parts_inventory := 2\<rparr>"

definition factory_workers_busy :: factory where
  "factory_workers_busy = MQTTValueFactory_init\<lparr>active_worker_requests := 12\<rparr>"




text \<open>Four assembled units enter quality control at once.\<close>

definition factory_qc_rush :: factory where
  "factory_qc_rush =
     product_to_qc_start (product_to_qc_start (product_to_qc_start (product_to_qc_start
       MQTTValueFactory_init)))"

text \<open>The global rate parameters that \<^verbatim>\<open>apply_strategy_effects\<close> scales.\<close>

definition rate_parameters :: "factory \<Rightarrow> rat \<times> rat \<times> rat \<times> rat \<times> rat \<times> rat \<times> rat" where
  "rate_parameters st =
     (CNC_FAILURE_CHANCE st, SUPPLY_CHAIN_ISSUE_CHANCE st, QUALITY_ISSUE_CHANCE st,
      POWER_OUTAGE_CHANCE st, ASSEMBLY_TIME st, CNC_PROCESSING_TIME st, defect_rate st)"

text \<open>Quality monitoring is switched on, a quality issue of four hours starts and ends,
  and then the strategy is switched off by a command or expires after its thirty days.\<close>

definition factory_monitored :: factory where
  "factory_monitored =
     (case modify_strategy [] 5 True None MQTTValueFactory_init of
        Inl (e, st) \<Rightarrow> st | Inr (out, st) \<Rightarrow> st)"

definition factory_issue_started :: factory where
  "factory_issue_started = quality_control_issue_start (4 * 60) factory_monitored"

definition factory_issue_over :: factory where
  "factory_issue_over = quality_control_issue_end factory_issue_started"

definition factory_unmonitored :: factory where
  "factory_unmonitored =
     (case modify_strategy [] 5 False None factory_issue_over of
        Inl (e, st) \<Rightarrow> st | Inr (out, st) \<Rightarrow> st)"

definition factory_monitoring_expired :: factory where
  "factory_monitoring_expired =
     check_strategy_expiration (factory_issue_over\<lparr>env_now := 30 * 24 * 60\<rparr>)"

text \<open>The topic of the direct command of a strategy, and a payload that addresses a
  strategy by its index.\<close>

definition strategy_topic :: "AdaptationStrategy \<Rightarrow> string" where
  "strategy_topic strategy = ''factory/command/'' @ name_of strategy"

definition payload_by_index :: json where
  "payload_by_index = JObj [(''command'', JStr ''activate''), (''strategy'', JNum (Finite 0))]"


section \<open>Basic facts\<close>

lemma strategies_length: "length strategies = 24"
  by (simp add: strategies_def)


lemma log_keeps [simp]:
  "adaptation_strategies (log l c st) = adaptation_strategies st"
  "costs (log l c st) = costs st"
  by (simp_all add: log_def)

lemma env_process_keeps [simp]:
  "adaptation_strategies (env_process p st) = adaptation_strategies st"
  "costs (env_process p st) = costs st"
  by (simp_all add: env_process_def)


section \<open>One-time strategies leave the active set and the costs alone\<close>










section \<open>Claims about the strategy manager\<close>


text \<open>
  C10. When CANCEL_PENDING_ORDERS (index 21) is activated with a backlog of at most 10,
  the call returns as an execution, the backlog, the cancelled orders and the revenue are
  as before and the costs have grown by 20000; the execution itself adds two log
  entries and nothing else.
\<close>

theorem cancel_pending_orders_small_backlog:
  assumes "backlog st \<le> 10"
  shows "\<exists>st'. modify_strategy rs 21 True cd st
                 = Inr (One_time_strategy_executed CANCEL_PENDING_ORDERS, st')
          \<and> backlog st' = backlog st \<and> cancelled_orders st' = cancelled_orders st
          \<and> revenue st' = revenue st \<and> costs st' = costs st + 20000
          \<and> execute_one_time_strategy rs CANCEL_PENDING_ORDERS st
              = Inr (log INFO ''Orders'' (log STRATEGY ''Execution'' st))"
  using assms
  by (simp add: modify_strategy_def strategies_def ONE_TIME_STRATEGIES_def afford_warning_def
      execute_one_time_strategy_def exec_CANCEL_PENDING_ORDERS_def log_def Let_def)

theorem cancel_pending_orders_small_backlog_witness:
  "backlog factory_backlog_10 \<le> 10
   \<and> (\<exists>st'. modify_strategy [] 21 True None factory_backlog_10
                 = Inr (One_time_strategy_executed CANCEL_PENDING_ORDERS, st')
          \<and> backlog st' = 10 \<and> cancelled_orders st' = 0 \<and> revenue st' = 0
          \<and> costs st' = 20000)"
proof -
  have h: "backlog factory_backlog_10 \<le> 10"
    by (simp add: factory_backlog_10_def)
  have v: "backlog factory_backlog_10 = 10" "cancelled_orders factory_backlog_10 = 0"
    "revenue factory_backlog_10 = 0" "costs factory_backlog_10 = 0"
    by (simp_all add: factory_backlog_10_def MQTTValueFactory_init_def)
  from cancel_pending_orders_small_backlog [OF h, of "[]" None] v h show ?thesis
    by auto
qed

section \<open>Claims about the ledger and the pipeline\<close>

text \<open>
  C6. With a stock and a backlog that are not negative, process_backlog takes
  min(finished_products, backlog) units from both, adds them to the fulfilled orders and
  adds 1500 per unit to the revenue. The last segment of product_to_qc calls it on the
  state in which the inspected unit has been counted (the stock one higher when the unit
  passed), and the daily round of generate_orders calls it on the state in which the new
  orders have been added to the total and to the backlog.
\<close>

theorem process_backlog_fulfilment:
  assumes "0 \<le> finished_products st" and "0 \<le> backlog st"
  shows "finished_products (process_backlog st)
           = finished_products st - min (finished_products st) (backlog st)
       \<and> backlog (process_backlog st) = backlog st - min (finished_products st) (backlog st)
       \<and> fulfilled_orders (process_backlog st)
           = fulfilled_orders st + min (finished_products st) (backlog st)
       \<and> revenue (process_backlog st)
           = revenue st + 1500 * of_int (min (finished_products st) (backlog st))
       \<and> (\<exists>st1. product_to_qc_inspected rs q w st = release q (release w (process_backlog st1))
              \<and> backlog st1 = backlog st
              \<and> (finished_products st1 = finished_products st
                   \<or> finished_products st1 = finished_products st + 1))
       \<and> (\<exists>d st2. st2 = st\<lparr>daily_production := 0, total_orders := total_orders st + d,
                               backlog := backlog st + d\<rparr>
              \<and> (generate_orders_body rs st = generate_orders_loop (process_backlog st2)
                   \<or> generate_orders_body rs st
                       = generate_orders_loop (env_process OrderRaw_start (process_backlog st2))))"
proof (intro conjI)
  show "\<exists>st1. product_to_qc_inspected rs q w st = release q (release w (process_backlog st1))
              \<and> backlog st1 = backlog st
              \<and> (finished_products st1 = finished_products st
                   \<or> finished_products st1 = finished_products st + 1)"
    by (auto simp: product_to_qc_inspected_def classify_unit_def Let_def split: prod.splits)
  show "\<exists>d st2. st2 = st\<lparr>daily_production := 0, total_orders := total_orders st + d,
                               backlog := backlog st + d\<rparr>
              \<and> (generate_orders_body rs st = generate_orders_loop (process_backlog st2)
                   \<or> generate_orders_body rs st
                       = generate_orders_loop (env_process OrderRaw_start (process_backlog st2)))"
    by (intro exI [of _ "py_int (of_int (py_int (current_order_rate st))
                                    * uniform (6/10) (14/10) (draw rs 0))"])
       (simp add: generate_orders_body_def Let_def)
qed (use assms in \<open>auto simp: process_backlog_def log_def Let_def min_def\<close>)

theorem process_backlog_fulfilment_witness:
  "0 \<le> finished_products factory_stock_7_backlog_4
   \<and> 0 \<le> backlog factory_stock_7_backlog_4
   \<and> finished_products (process_backlog factory_stock_7_backlog_4) = 3
   \<and> backlog (process_backlog factory_stock_7_backlog_4) = 0
   \<and> fulfilled_orders (process_backlog factory_stock_7_backlog_4) = 4
   \<and> revenue (process_backlog factory_stock_7_backlog_4) = 6000"
  using process_backlog_fulfilment [of factory_stock_7_backlog_4]
  by (simp add: factory_stock_7_backlog_4_def MQTTValueFactory_init_def)

text \<open>
  C8, as the claim states it, fails: with power on and fewer parts than one product
  needs, the assembler waits 60 minutes, not 10.
\<close>

theorem repoll_delays_counterexample:
  "\<not> power_outage factory_few_parts
   \<and> parts_inventory factory_few_parts < PARTS_PER_PRODUCT
   \<and> assemble_products_loop factory_few_parts = timeout 60 Assemble_loop factory_few_parts
   \<and> assemble_products_loop factory_few_parts \<noteq> timeout 10 Assemble_loop factory_few_parts"
  by (simp add: assemble_products_loop_def factory_few_parts_def MQTTValueFactory_init_def
      PARTS_PER_PRODUCT_def timeout_def)

text \<open>
  C8, amended. A cycle that finds no eligible work waits a fixed time and starts over:
  the producer 10 minutes (power outage; no raw materials, no operational machine or no
  available worker; no raw materials left once both resources are held, which it then
  releases), the assembler 10 minutes in a power outage and 60 minutes when the parts do
  not make one product, when no worker is available or when the worker requests in
  progress would exceed the available workers.
\<close>

theorem repoll_delays:
  "(power_outage st \<or> raw_materials st \<le> 0 \<or> operational_cnc_machines st \<le> 0
       \<or> available_workers st \<le> 0
      \<longrightarrow> produce_parts_loop st = timeout 10 ProduceParts_loop st)
   \<and> (raw_materials st \<le> 0
      \<longrightarrow> produce_parts_worker c w st = timeout 10 ProduceParts_loop (release c (release w st)))
   \<and> (power_outage st \<longrightarrow> assemble_products_loop st = timeout 10 Assemble_loop st)
   \<and> (\<not> power_outage st \<and> (parts_inventory st < PARTS_PER_PRODUCT \<or> available_workers st \<le> 0)
      \<longrightarrow> assemble_products_loop st = timeout 60 Assemble_loop st)
   \<and> (\<not> power_outage st \<and> PARTS_PER_PRODUCT \<le> parts_inventory st \<and> 0 < available_workers st
        \<and> available_workers st < active_worker_requests st + 1
      \<longrightarrow> assemble_products_loop st = timeout 60 Assemble_loop st)"
  by (auto simp: produce_parts_loop_def produce_parts_worker_def assemble_products_loop_def
      release_def Let_def)

theorem repoll_delays_witness:
  "power_outage factory_power_out
   \<and> produce_parts_loop factory_power_out = timeout 10 ProduceParts_loop factory_power_out
   \<and> assemble_products_loop factory_power_out = timeout 10 Assemble_loop factory_power_out
   \<and> raw_materials factory_no_materials \<le> 0
   \<and> produce_parts_loop factory_no_materials = timeout 10 ProduceParts_loop factory_no_materials
   \<and> produce_parts_worker (0, 0) (3, 1) factory_no_materials
       = timeout 10 ProduceParts_loop (release (0, 0) (release (3, 1) factory_no_materials))
   \<and> \<not> power_outage factory_few_parts
   \<and> parts_inventory factory_few_parts < PARTS_PER_PRODUCT
   \<and> assemble_products_loop factory_few_parts = timeout 60 Assemble_loop factory_few_parts
   \<and> available_workers factory_workers_busy < active_worker_requests factory_workers_busy + 1
   \<and> assemble_products_loop factory_workers_busy = timeout 60 Assemble_loop factory_workers_busy"
proof -
  have a: "power_outage factory_power_out"
    by (simp add: factory_power_out_def)
  have b: "raw_materials factory_no_materials \<le> 0"
    by (simp add: factory_no_materials_def)
  have c: "\<not> power_outage factory_few_parts"
    "parts_inventory factory_few_parts < PARTS_PER_PRODUCT"
    by (simp_all add: factory_few_parts_def MQTTValueFactory_init_def PARTS_PER_PRODUCT_def)
  have d: "\<not> power_outage factory_workers_busy"
    "PARTS_PER_PRODUCT \<le> parts_inventory factory_workers_busy"
    "0 < available_workers factory_workers_busy"
    "available_workers factory_workers_busy < active_worker_requests factory_workers_busy + 1"
    by (simp_all add: factory_workers_busy_def MQTTValueFactory_init_def PARTS_PER_PRODUCT_def)
  show ?thesis
    using repoll_delays [of factory_power_out] repoll_delays [of factory_no_materials "(0, 0)" "(3, 1)"]
      repoll_delays [of factory_few_parts] repoll_delays [of factory_workers_busy] a b c d
    by simp
qed


section \<open>Claims about the resource pools\<close>

lemma pool_replaced_log [simp]:
  "pool_replaced (log l c st) st' p n = pool_replaced st st' p n"
  "pool_replaced st (log l c st') p n = pool_replaced st st' p n"
  "cnc_machines (log l c st) = cnc_machines st" "workers (log l c st) = workers st"
  "resources (log l c st) = resources st"
  "NUM_CNC_MACHINES (log l c st) = NUM_CNC_MACHINES st"
  "NUM_WORKERS (log l c st) = NUM_WORKERS st"
  by (simp_all add: pool_replaced_def log_def)

lemma afford_warning_pool [simp]:
  "resources (afford_warning s st) = resources st"
  "cnc_machines (afford_warning s st) = cnc_machines st"
  "workers (afford_warning s st) = workers st"
  "NUM_CNC_MACHINES (afford_warning s st) = NUM_CNC_MACHINES st"
  "NUM_WORKERS (afford_warning s st) = NUM_WORKERS st"
  by (simp_all add: afford_warning_def Let_def)















section \<open>Compound acquisition\<close>

lemma trigger_put_members:
  "set (users (trigger_put r)) \<union> set (put_queue (trigger_put r))
     = set (users r) \<union> set (put_queue r)"
  by (cases "put_queue r") (auto simp: trigger_put_def)

lemma request_fresh:
  assumes "fresh_requests st"
  shows "fresh_requests (snd (request a st))"
  unfolding fresh_requests_def
proof (intro ballI)
  fix r i
  let ?i = "next_request st"
  let ?r = "resources st ! a"
  let ?r' = "trigger_put (?r\<lparr>put_queue := put_queue ?r @ [?i]\<rparr>)"
  assume r: "r \<in> set (resources (snd (request a st)))"
    and i: "i \<in> set (users r) \<union> set (put_queue r)"
  from r have "r \<in> set ((resources st)[a := ?r'])"
    by (simp add: request_def Let_def)
  then have "r = ?r' \<or> r \<in> set (resources st)"
    using set_update_subset_insert[of "resources st" a ?r'] by auto
  then have "i < ?i + 1"
  proof
    assume e: "r = ?r'"
    show ?thesis
    proof (cases "a < length (resources st)")
      case True
      then have "?r \<in> set (resources st)" by simp
      with assms have "\<forall>j \<in> set (users ?r) \<union> set (put_queue ?r). j < ?i"
        unfolding fresh_requests_def by blast
      moreover from i e have "i \<in> set (users ?r) \<union> set (put_queue ?r) \<union> {?i}"
        using trigger_put_members[of "?r\<lparr>put_queue := put_queue ?r @ [?i]\<rparr>"] by auto
      ultimately show ?thesis by (auto simp: less_Suc_eq)
    next
      case False
      with r have "r \<in> set (resources st)"
        by (simp add: request_def Let_def list_update_beyond)
      with assms i have "i < ?i" unfolding fresh_requests_def by blast
      then show ?thesis by simp
    qed
  next
    assume "r \<in> set (resources st)"
    with assms i have "i < ?i" unfolding fresh_requests_def by blast
    then show ?thesis by simp
  qed
  then show "i < next_request (snd (request a st))"
    by (simp add: request_def Let_def)
qed

lemma request_outcome:
  assumes "a < length (resources st)" and "fresh_requests st"
  shows "fst (request a st) = (a, next_request st)"
    and "granted (snd (request a st)) (a, next_request st) \<longleftrightarrow> free_slot st a"
    and "waiting (snd (request a st)) (a, next_request st) \<longleftrightarrow> \<not> free_slot st a"
    and "next_request (snd (request a st)) = next_request st + 1"
    and "length (resources (snd (request a st))) = length (resources st)"
    and "b \<noteq> a \<Longrightarrow> resources (snd (request a st)) ! b = resources st ! b"
proof -
  let ?r = "resources st ! a"
  from assms have m: "?r \<in> set (resources st)" by simp
  with assms have f: "next_request st \<notin> set (users ?r)" "next_request st \<notin> set (put_queue ?r)"
    unfolding fresh_requests_def by fastforce+
  show "fst (request a st) = (a, next_request st)"
    by (simp add: request_def Let_def)
  show "granted (snd (request a st)) (a, next_request st) \<longleftrightarrow> free_slot st a"
    using assms(1) f
    by (cases "put_queue ?r")
       (auto simp: request_def Let_def granted_def free_slot_def trigger_put_def in_use_def)
  show "waiting (snd (request a st)) (a, next_request st) \<longleftrightarrow> \<not> free_slot st a"
    using assms(1) f
    by (cases "put_queue ?r")
       (auto simp: request_def Let_def waiting_def free_slot_def trigger_put_def in_use_def)
  show "next_request (snd (request a st)) = next_request st + 1"
    by (simp add: request_def Let_def)
  show "length (resources (snd (request a st))) = length (resources st)"
    by (simp add: request_def Let_def)
  show "b \<noteq> a \<Longrightarrow> resources (snd (request a st)) ! b = resources st ! b"
    by (simp add: request_def Let_def)
qed

text \<open>Two requests in a row on two pools, as the compound acquisitions issue them.\<close>

lemma request_pair:
  assumes "a < length (resources st)" and "w < length (resources st)" and "a \<noteq> w"
    and "fresh_requests st"
  shows "request w (snd (request a st))
           = ((w, next_request st + 1), snd (request w (snd (request a st))))"
    and "granted (snd (request w (snd (request a st)))) (a, next_request st) \<longleftrightarrow> free_slot st a"
    and "granted (snd (request w (snd (request a st)))) (w, next_request st + 1) \<longleftrightarrow> free_slot st w"
    and "waiting (snd (request w (snd (request a st)))) (a, next_request st) \<longleftrightarrow> \<not> free_slot st a"
    and "waiting (snd (request w (snd (request a st)))) (w, next_request st + 1) \<longleftrightarrow> \<not> free_slot st w"
proof -
  let ?s1 = "snd (request a st)"
  let ?s2 = "snd (request w ?s1)"
  note o1 = request_outcome[OF assms(1) assms(4)]
  have w1: "w < length (resources ?s1)" using o1(5) assms(2) by simp
  have f1: "fresh_requests ?s1" by (rule request_fresh[OF assms(4)])
  note o2 = request_outcome[OF w1 f1]
  have fs: "free_slot ?s1 w \<longleftrightarrow> free_slot st w"
    using o1(6)[of w] assms(3) by (simp add: free_slot_def in_use_def)
  have keep: "resources ?s2 ! a = resources ?s1 ! a"
    using o2(6)[of a] assms(3) by simp
  show "request w ?s1 = ((w, next_request st + 1), ?s2)"
    using o2(1) o1(4) by (simp add: prod_eq_iff)
  show "granted ?s2 (a, next_request st) \<longleftrightarrow> free_slot st a"
    using o1(2) keep by (simp add: granted_def)
  show "granted ?s2 (w, next_request st + 1) \<longleftrightarrow> free_slot st w"
    using o2(2) o1(4) fs by simp
  show "waiting ?s2 (a, next_request st) \<longleftrightarrow> \<not> free_slot st a"
    using o1(3) keep by (simp add: waiting_def)
  show "waiting ?s2 (w, next_request st + 1) \<longleftrightarrow> \<not> free_slot st w"
    using o2(3) o1(4) fs by simp
qed



text \<open>
  C5, as the claim states it, fails: four units enter quality control while the three QC
  stations are free. The fourth process is blocked: its QC-station request waits in the
  queue while its worker request has been granted, so it holds a worker slot.
\<close>

theorem compound_acquisition_counterexample:
  "blocked factory_qc_rush =
     [ProductToQc_acquired (2, 0) (3, 1), ProductToQc_acquired (2, 2) (3, 3),
      ProductToQc_acquired (2, 4) (3, 5), ProductToQc_acquired (2, 6) (3, 7)]
   \<and> \<not> ready factory_qc_rush (ProductToQc_acquired (2, 6) (3, 7))
   \<and> waiting factory_qc_rush (2, 6) \<and> granted factory_qc_rush (3, 7)
   \<and> holds_while_blocked factory_qc_rush (ProductToQc_acquired (2, 6) (3, 7))"
  by (simp add: factory_qc_rush_def product_to_qc_start_def request_def
      trigger_put_def wait_for_def granted_def waiting_def MQTTValueFactory_init_def Let_def)

text \<open>
  C5, amended. The assembler (when its guards pass) and the QC inspector issue their two
  requests together, first the station, then the worker, and wait for both: the process
  goes on only when both are granted. Each request is granted on its own, exactly when
  its pool has nobody waiting and a slot left, whatever happens to the other request;
  otherwise it waits in its pool's queue. So a process can hold one slot of the pair while
  it waits for the other.
\<close>

theorem compound_acquisition_independent:
  assumes "\<not> power_outage st"
    and "assembly_stations st < length (resources st)" and "qc_stations st < length (resources st)"
    and "workers st < length (resources st)"
    and "assembly_stations st \<noteq> workers st" and "qc_stations st \<noteq> workers st"
    and "fresh_requests st"
    and "a = (assembly_stations st, next_request st)" and "q = (qc_stations st, next_request st)"
    and "w = (workers st, next_request st + 1)"
  shows "(PARTS_PER_PRODUCT \<le> parts_inventory st \<and> 0 < available_workers st
            \<and> active_worker_requests st + 1 \<le> available_workers st
          \<longrightarrow> blocked (assemble_products_loop st) = blocked st @ [Assemble_acquired a w]
             \<and> (granted (assemble_products_loop st) a \<longleftrightarrow> free_slot st (assembly_stations st))
             \<and> (granted (assemble_products_loop st) w \<longleftrightarrow> free_slot st (workers st))
             \<and> (waiting (assemble_products_loop st) a \<longleftrightarrow> \<not> free_slot st (assembly_stations st))
             \<and> (waiting (assemble_products_loop st) w \<longleftrightarrow> \<not> free_slot st (workers st)))
       \<and> blocked (product_to_qc_start st) = blocked st @ [ProductToQc_acquired q w]
       \<and> (granted (product_to_qc_start st) q \<longleftrightarrow> free_slot st (qc_stations st))
       \<and> (granted (product_to_qc_start st) w \<longleftrightarrow> free_slot st (workers st))
       \<and> (waiting (product_to_qc_start st) q \<longleftrightarrow> \<not> free_slot st (qc_stations st))
       \<and> (waiting (product_to_qc_start st) w \<longleftrightarrow> \<not> free_slot st (workers st))
       \<and> (ready st' (Assemble_acquired a w) \<longleftrightarrow> granted st' a \<and> granted st' w)
       \<and> (ready st' (ProductToQc_acquired q w) \<longleftrightarrow> granted st' q \<and> granted st' w)"
proof -
  let ?s1 = "st\<lparr>active_worker_requests := active_worker_requests st + 1\<rparr>"
  let ?s2 = "st\<lparr>active_qc_requests := active_qc_requests st + 1\<rparr>"
  have f1: "fresh_requests ?s1" and f2: "fresh_requests ?s2"
    using assms(7) by (simp_all add: fresh_requests_def)
  have fs1: "\<And>p. free_slot ?s1 p = free_slot st p" and fs2: "\<And>p. free_slot ?s2 p = free_slot st p"
    by (simp_all add: free_slot_def in_use_def)
  note p1 = request_pair[of "assembly_stations st" ?s1 "workers st", simplified, OF assms(2,4,5) f1]
  note p2 = request_pair[of "qc_stations st" ?s2 "workers st", simplified, OF assms(3,4,6) f2]
  have o1: "fst (request (assembly_stations st) ?s1) = a"
    using request_outcome(1)[of "assembly_stations st" ?s1] assms(2,8) f1 by simp
  have o2: "fst (request (qc_stations st) ?s2) = q"
    using request_outcome(1)[of "qc_stations st" ?s2] assms(3,9) f2 by simp
  have w1: "workers (snd (request (assembly_stations st) ?s1)) = workers st"
    and w2: "workers (snd (request (qc_stations st) ?s2)) = workers st"
    by (simp_all add: request_def Let_def)
  have b: "\<And>x s. blocked (snd (request x s)) = blocked s"
    by (simp add: request_def Let_def)
  have g: "\<And>p s x. granted (wait_for p s) x = granted s x"
    "\<And>p s x. waiting (wait_for p s) x = waiting s x"
    by (simp_all add: wait_for_def granted_def waiting_def)
  let ?t1 = "snd (request (workers st) (snd (request (assembly_stations st) ?s1)))"
  let ?t2 = "snd (request (workers st) (snd (request (qc_stations st) ?s2)))"
  have r1: "fst (request (workers st) (snd (request (assembly_stations st) ?s1))) = w"
    using arg_cong[OF p1(1), of fst] assms(10) by simp
  have r2: "fst (request (workers st) (snd (request (qc_stations st) ?s2))) = w"
    using arg_cong[OF p2(1), of fst] assms(10) by simp
  have shape1: "PARTS_PER_PRODUCT \<le> parts_inventory st \<and> 0 < available_workers st
            \<and> active_worker_requests st + 1 \<le> available_workers st
      \<Longrightarrow> assemble_products_loop st = wait_for (Assemble_acquired a w) ?t1"
    using assms(1) by (simp add: assemble_products_loop_def Let_def case_prod_beta o1 w1 r1)
  have shape2: "product_to_qc_start st = wait_for (ProductToQc_acquired q w) ?t2"
    using assms(1) by (simp add: product_to_qc_start_def Let_def case_prod_beta o2 w2 r2)
  have bl: "\<And>p s. blocked (wait_for p s) = blocked s @ [p]"
    by (simp add: wait_for_def)
  have b1: "blocked ?t1 = blocked st" and b2: "blocked ?t2 = blocked st"
    by (simp_all add: b)
  from p1(2-5) assms(8,10) have P1:
    "granted ?t1 a \<longleftrightarrow> free_slot st (assembly_stations st)"
    "granted ?t1 w \<longleftrightarrow> free_slot st (workers st)"
    "waiting ?t1 a \<longleftrightarrow> \<not> free_slot st (assembly_stations st)"
    "waiting ?t1 w \<longleftrightarrow> \<not> free_slot st (workers st)"
    by (simp_all add: fs1)
  from p2(2-5) assms(9,10) have P2:
    "granted ?t2 q \<longleftrightarrow> free_slot st (qc_stations st)"
    "granted ?t2 w \<longleftrightarrow> free_slot st (workers st)"
    "waiting ?t2 q \<longleftrightarrow> \<not> free_slot st (qc_stations st)"
    "waiting ?t2 w \<longleftrightarrow> \<not> free_slot st (workers st)"
    by (simp_all add: fs2)
  show ?thesis
    using shape1 shape2 P1 P2 by (auto simp: g bl b1 b2)
qed

theorem compound_acquisition_independent_witness:
  "\<not> power_outage MQTTValueFactory_init
   \<and> fresh_requests MQTTValueFactory_init
   \<and> PARTS_PER_PRODUCT \<le> parts_inventory MQTTValueFactory_init
   \<and> blocked (assemble_products_loop MQTTValueFactory_init) = [Assemble_acquired (1, 0) (3, 1)]
   \<and> granted (assemble_products_loop MQTTValueFactory_init) (1, 0)
   \<and> granted (assemble_products_loop MQTTValueFactory_init) (3, 1)
   \<and> blocked (product_to_qc_start MQTTValueFactory_init) = [ProductToQc_acquired (2, 0) (3, 1)]
   \<and> granted (product_to_qc_start MQTTValueFactory_init) (2, 0)
   \<and> granted (product_to_qc_start MQTTValueFactory_init) (3, 1)"
proof -
  have h: "\<not> power_outage MQTTValueFactory_init"
    "assembly_stations MQTTValueFactory_init < length (resources MQTTValueFactory_init)"
    "qc_stations MQTTValueFactory_init < length (resources MQTTValueFactory_init)"
    "workers MQTTValueFactory_init < length (resources MQTTValueFactory_init)"
    "assembly_stations MQTTValueFactory_init \<noteq> workers MQTTValueFactory_init"
    "qc_stations MQTTValueFactory_init \<noteq> workers MQTTValueFactory_init"
    "fresh_requests MQTTValueFactory_init"
    "(1, 0) = (assembly_stations MQTTValueFactory_init, next_request MQTTValueFactory_init)"
    "(2, 0) = (qc_stations MQTTValueFactory_init, next_request MQTTValueFactory_init)"
    "(3, 1) = (workers MQTTValueFactory_init, next_request MQTTValueFactory_init + 1)"
    by (simp_all add: MQTTValueFactory_init_def fresh_requests_def)
  have v: "PARTS_PER_PRODUCT \<le> parts_inventory MQTTValueFactory_init"
    "0 < available_workers MQTTValueFactory_init"
    "active_worker_requests MQTTValueFactory_init + 1 \<le> available_workers MQTTValueFactory_init"
    "blocked MQTTValueFactory_init = []"
    "free_slot MQTTValueFactory_init 1" "free_slot MQTTValueFactory_init 2"
    "free_slot MQTTValueFactory_init 3"
    "assembly_stations MQTTValueFactory_init = 1" "qc_stations MQTTValueFactory_init = 2"
    "workers MQTTValueFactory_init = 3"
    by (simp_all add: MQTTValueFactory_init_def PARTS_PER_PRODUCT_def free_slot_def in_use_def)
  show ?thesis
    using compound_acquisition_independent[OF h] h(1,7) v
    by simp
qed

section \<open>Activation and deactivation of persistent strategies\<close>

lemma log_rates [simp]: "rate_parameters (log l c st) = rate_parameters st"
  "adaptation_strategies (log l c st) = adaptation_strategies st"
  by (simp_all add: rate_parameters_def log_def)

lemma bookkeeping_rates [simp]:
  "rate_parameters (strategy_bookkeeping dur s a st) = rate_parameters st"
  "adaptation_strategies (strategy_bookkeeping dur s a st) = adaptation_strategies st"
  by (simp_all add: strategy_bookkeeping_def rate_parameters_def log_def Let_def)

lemma strategy_effect_round_trip:
  "rate_parameters (strategy_effect s False (strategy_effect s True st)) = rate_parameters st"
  by (cases s) (simp_all add: strategy_effect_def rate_parameters_def log_def env_process_def Let_def)

lemma strategy_effect_factor:
  "rate_parameters (strategy_effect s a (st\<lparr>adaptation_strategies := A\<rparr>))
     = rate_parameters (strategy_effect s a st)"
  "rate_parameters (strategy_effect s a (strategy_bookkeeping dur s b st))
     = rate_parameters (strategy_effect s a st)"
  "rate_parameters (strategy_effect s a (log l c st)) = rate_parameters (strategy_effect s a st)"
  by (cases s; simp add: strategy_effect_def rate_parameters_def log_def env_process_def Let_def
       strategy_bookkeeping_def)+


lemma strategy_effect_cong:
  "rate_parameters st1 = rate_parameters st2 \<Longrightarrow>
     rate_parameters (strategy_effect s a st1) = rate_parameters (strategy_effect s a st2)"
  by (cases s; simp add: strategy_effect_def rate_parameters_def log_def env_process_def Let_def)

lemma strategy_effect_active [simp]:
  "adaptation_strategies (strategy_effect s a st) = adaptation_strategies st"
  by (cases s; simp add: strategy_effect_def log_def env_process_def Let_def)

lemma strategy_effect_quality_issue [simp]:
  "has_quality_issue (strategy_effect s a st) = has_quality_issue st"
  by (cases s; simp add: strategy_effect_def log_def env_process_def Let_def)

lemma strategy_effect_expiration_times [simp]:
  "strategy_expiration_times (strategy_effect s a st) = strategy_expiration_times st"
  by (cases s; simp add: strategy_effect_def log_def env_process_def Let_def)

lemma apply_strategy_effects_rates:
  "rate_parameters (apply_strategy_effects dur s a st) = rate_parameters (strategy_effect s a st)"
  "adaptation_strategies (apply_strategy_effects dur s a st) = adaptation_strategies st"
  by (simp_all add: apply_strategy_effects_def strategy_effect_factor)

lemma afford_warning_rates [simp]:
  "rate_parameters (afford_warning s st) = rate_parameters st"
  "adaptation_strategies (afford_warning s st) = adaptation_strategies st"
  by (simp_all add: afford_warning_def Let_def)

lemma active_update_rates [simp]:
  "rate_parameters (st\<lparr>adaptation_strategies := A\<rparr>) = rate_parameters st"
  by (simp add: rate_parameters_def)

lemma activate_persistent:
  assumes "0 \<le> idx" and "idx < 24" and "s = strategies ! nat idx"
    and "s \<notin> ONE_TIME_STRATEGIES" and "s \<notin> adaptation_strategies st"
  shows "\<exists>st1. modify_strategy rs idx True cd st = Inr (Strategy_activated s, st1)
           \<and> adaptation_strategies st1 = insert s (adaptation_strategies st)
           \<and> rate_parameters st1 = rate_parameters (strategy_effect s True st)"
  using assms
  by (cases cd)
     (auto simp: modify_strategy_def strategies_length Let_def apply_strategy_effects_rates
        intro!: strategy_effect_cong)

lemma afford_warning_fields [simp]:
  "has_quality_issue (afford_warning s st) = has_quality_issue st"
  "strategy_expiration_times (afford_warning s st) = strategy_expiration_times st"
  "env_now (afford_warning s st) = env_now st"
  by (simp_all add: afford_warning_def log_def Let_def)

lemma bookkeeping_fields [simp]:
  "has_quality_issue (strategy_bookkeeping dur s a st) = has_quality_issue st"
  "strategy_expiration_times (strategy_bookkeeping dur s True st)
     = AList.update s (env_now st + dur s) (strategy_expiration_times st)"
  by (simp_all add: strategy_bookkeeping_def log_def Let_def)

lemma activate_default_fields:
  assumes "0 \<le> idx" and "idx < 24" and "s = strategies ! nat idx"
    and "s \<notin> ONE_TIME_STRATEGIES" and "s \<notin> adaptation_strategies st"
    and "modify_strategy rs idx True None st = Inr (out, st1)"
  shows "has_quality_issue st1 = has_quality_issue st"
    "strategy_expiration_times st1
       = AList.update s (env_now st + DURATION s) (strategy_expiration_times st)"
  using assms
  by (auto simp: modify_strategy_def strategies_length Let_def apply_strategy_effects_def)

lemma deactivate_persistent:
  assumes "0 \<le> idx" and "idx < 24" and "s = strategies ! nat idx"
    and "s \<notin> ONE_TIME_STRATEGIES" and "s \<in> adaptation_strategies st"
  shows "\<exists>st2. modify_strategy rs idx False cd st = Inr (Strategy_deactivated s, st2)
           \<and> adaptation_strategies st2 = adaptation_strategies st - {s}
           \<and> rate_parameters st2 = rate_parameters (strategy_effect s False st)"
  using assms
  by (auto simp: modify_strategy_def strategies_length Let_def apply_strategy_effects_rates
        intro!: strategy_effect_cong)

text \<open>In isolation the round trip holds: deactivating right after activating restores
  every rate parameter.\<close>

lemma strategy_round_trip:
  assumes "0 \<le> idx" and "idx < 24" and "s = strategies ! nat idx"
    and "s \<notin> ONE_TIME_STRATEGIES" and "s \<notin> adaptation_strategies st"
  shows "\<exists>st1 st2. modify_strategy rs idx True cd st = Inr (Strategy_activated s, st1)
           \<and> modify_strategy rs' idx False cd' st1 = Inr (Strategy_deactivated s, st2)
           \<and> rate_parameters st2 = rate_parameters st
           \<and> s \<notin> adaptation_strategies st2"
proof -
  from activate_persistent[OF assms, of rs cd] obtain st1 where
    a: "modify_strategy rs idx True cd st = Inr (Strategy_activated s, st1)"
    "adaptation_strategies st1 = insert s (adaptation_strategies st)"
    "rate_parameters st1 = rate_parameters (strategy_effect s True st)" by blast
  then have "s \<in> adaptation_strategies st1" by simp
  from deactivate_persistent[OF assms(1-4) this, of rs' cd'] obtain st2 where
    d: "modify_strategy rs' idx False cd' st1 = Inr (Strategy_deactivated s, st2)"
    "adaptation_strategies st2 = adaptation_strategies st1 - {s}"
    "rate_parameters st2 = rate_parameters (strategy_effect s False st1)" by blast
  have "rate_parameters st2 = rate_parameters (strategy_effect s False (strategy_effect s True st))"
    using d(3) strategy_effect_cong[OF a(3)] by simp
  then have "rate_parameters st2 = rate_parameters st"
    by (simp add: strategy_effect_round_trip)
  with a d show ?thesis by auto
qed

lemma monitored:
  "modify_strategy [] 5 True None MQTTValueFactory_init
     = Inr (Strategy_activated QUALITY_MONITORING, factory_monitored)"
  "adaptation_strategies factory_monitored = {QUALITY_MONITORING}"
  "defect_rate factory_monitored = 8/1000"
  "QUALITY_ISSUE_CHANCE factory_monitored = 14/1000"
  "has_quality_issue factory_monitored = False"
  "strategy_expiration_times factory_monitored = [(QUALITY_MONITORING, 30 * 24 * 60)]"
proof -
  have i: "QUALITY_MONITORING = strategies ! nat 5" "QUALITY_MONITORING \<notin> ONE_TIME_STRATEGIES"
    by (simp_all add: strategies_def ONE_TIME_STRATEGIES_def)
  have n: "QUALITY_MONITORING \<notin> adaptation_strategies MQTTValueFactory_init"
    "adaptation_strategies MQTTValueFactory_init = {}"
    "has_quality_issue MQTTValueFactory_init = False"
    "strategy_expiration_times MQTTValueFactory_init = []" "env_now MQTTValueFactory_init = 0"
    "defect_rate MQTTValueFactory_init = 2/100" "QUALITY_ISSUE_CHANCE MQTTValueFactory_init = 7/100"
    by (simp_all add: MQTTValueFactory_init_def)
  from activate_persistent[OF _ _ i n(1), of "[]" None] obtain st1 where
    a: "modify_strategy [] 5 True None MQTTValueFactory_init
          = Inr (Strategy_activated QUALITY_MONITORING, st1)"
    "adaptation_strategies st1 = insert QUALITY_MONITORING (adaptation_strategies MQTTValueFactory_init)"
    "rate_parameters st1 = rate_parameters (strategy_effect QUALITY_MONITORING True MQTTValueFactory_init)"
    by auto
  note f = activate_default_fields[OF _ _ i n(1) a(1)]
  have u: "factory_monitored = st1"
    using a(1) by (simp add: factory_monitored_def)
  show "modify_strategy [] 5 True None MQTTValueFactory_init
     = Inr (Strategy_activated QUALITY_MONITORING, factory_monitored)"
    "adaptation_strategies factory_monitored = {QUALITY_MONITORING}"
    "defect_rate factory_monitored = 8/1000"
    "QUALITY_ISSUE_CHANCE factory_monitored = 14/1000"
    "has_quality_issue factory_monitored = False"
    "strategy_expiration_times factory_monitored = [(QUALITY_MONITORING, 30 * 24 * 60)]"
    using a f unfolding u
    by (simp_all add: n rate_parameters_def strategy_effect_def)
qed

lemma issue_started:
  "defect_rate factory_issue_started = 15/100"
  "adaptation_strategies factory_issue_started = {QUALITY_MONITORING}"
  "QUALITY_ISSUE_CHANCE factory_issue_started = 14/1000"
  "strategy_expiration_times factory_issue_started = [(QUALITY_MONITORING, 30 * 24 * 60)]"
  by (simp_all add: factory_issue_started_def quality_control_issue_start_def
      record_disruption_def log_def timeout_def Let_def monitored)

lemma issue_over:
  "adaptation_strategies factory_issue_over = {QUALITY_MONITORING}"
  "defect_rate factory_issue_over = 2/100"
  "QUALITY_ISSUE_CHANCE factory_issue_over = 14/1000"
  "strategy_expiration_times factory_issue_over = [(QUALITY_MONITORING, 30 * 24 * 60)]"
  by (simp_all add: factory_issue_over_def quality_control_issue_end_def issue_started)

text \<open>Claim C1. A persistent strategy scales the rate parameters on activation and scales
  them back on deactivation or expiration, but \<^verbatim>\<open>quality_control_issue\<close> resets
  \<^verbatim>\<open>defect_rate\<close> to the constant 0.02 when it ends. With quality monitoring active
  (0.02 becomes 0.008) a quality issue leaves 0.02 behind, and the deactivation, by command
  or by expiration, then divides by 0.4: the defect rate ends at 0.05 and not at its
  value 0.02 before the activation, while the chance of a quality issue is back at 0.07.\<close>

theorem quality_monitoring_round_trip_broken:
  "defect_rate MQTTValueFactory_init = 2/100
   \<and> QUALITY_ISSUE_CHANCE MQTTValueFactory_init = 7/100
   \<and> modify_strategy [] 5 True None MQTTValueFactory_init
       = Inr (Strategy_activated QUALITY_MONITORING, factory_monitored)
   \<and> defect_rate factory_monitored = 8/1000
   \<and> defect_rate factory_issue_started = 15/100
   \<and> defect_rate factory_issue_over = 2/100
   \<and> modify_strategy [] 5 False None factory_issue_over
       = Inr (Strategy_deactivated QUALITY_MONITORING, factory_unmonitored)
   \<and> defect_rate factory_unmonitored = 5/100
   \<and> QUALITY_ISSUE_CHANCE factory_unmonitored = 7/100
   \<and> defect_rate factory_monitoring_expired = 5/100
   \<and> QUALITY_ISSUE_CHANCE factory_monitoring_expired = 7/100
   \<and> QUALITY_MONITORING \<notin> adaptation_strategies factory_monitoring_expired"
proof -
  have i: "QUALITY_MONITORING = strategies ! nat 5" "QUALITY_MONITORING \<notin> ONE_TIME_STRATEGIES"
    by (simp_all add: strategies_def ONE_TIME_STRATEGIES_def)
  have m: "QUALITY_MONITORING \<in> adaptation_strategies factory_issue_over"
    by (simp add: issue_over)
  from deactivate_persistent[OF _ _ i m, of "[]" None] obtain st2 where
    d: "modify_strategy [] 5 False None factory_issue_over
          = Inr (Strategy_deactivated QUALITY_MONITORING, st2)"
    "rate_parameters st2 = rate_parameters (strategy_effect QUALITY_MONITORING False factory_issue_over)"
    by auto
  then have u: "factory_unmonitored = st2"
    by (simp add: factory_unmonitored_def)
  have r: "defect_rate factory_unmonitored = 5/100" "QUALITY_ISSUE_CHANCE factory_unmonitored = 7/100"
    using d(2) unfolding u
    by (simp_all add: rate_parameters_def strategy_effect_def issue_over)
  let ?late = "factory_issue_over\<lparr>env_now := 30 * 24 * 60\<rparr>"
  have x: "factory_monitoring_expired
             = apply_strategy_effects DURATION QUALITY_MONITORING False
                 ((log STRATEGY ''Expiration'' ?late)
                    \<lparr>adaptation_strategies :=
                       adaptation_strategies (log STRATEGY ''Expiration'' ?late)
                         - {QUALITY_MONITORING}\<rparr>)"
    by (simp add: factory_monitoring_expired_def check_strategy_expiration_def issue_over
        expire_strategy_def Let_def)
  have "rate_parameters factory_monitoring_expired
          = rate_parameters (strategy_effect QUALITY_MONITORING False factory_issue_over)"
    unfolding x apply_strategy_effects_rates
    by (rule strategy_effect_cong) (simp add: rate_parameters_def log_def)
  then have e: "defect_rate factory_monitoring_expired = 5/100"
    "QUALITY_ISSUE_CHANCE factory_monitoring_expired = 7/100"
    by (simp_all add: rate_parameters_def strategy_effect_def issue_over)
  have e': "QUALITY_MONITORING \<notin> adaptation_strategies factory_monitoring_expired"
    unfolding x apply_strategy_effects_rates by simp
  have n: "defect_rate MQTTValueFactory_init = 2/100"
    "QUALITY_ISSUE_CHANCE MQTTValueFactory_init = 7/100"
    by (simp_all add: MQTTValueFactory_init_def)
  show ?thesis
    using d(1) r e e' n unfolding u
    by (simp add: monitored issue_over issue_started)
qed

section \<open>Command ingress\<close>

lemma last_segment_topic: "last_segment (strategy_topic s) = name_of s"
  by (cases s) (simp_all add: last_segment_def strategy_topic_def)

lemma matching_strategy: "filter (\<lambda>x. name_of x = name_of s) strategies = [s]"
  by (cases s) (simp_all add: strategies_def)

lemma index_of_nth: "strategies ! nat (index_of s) = s"
  by (cases s) (simp_all add: index_of_def strategies_def)

lemma topic_of_strategy:
  "strategy_topic s \<noteq> STRATEGY_COMMAND"
  "strategy_topic s \<noteq> SIMULATION_COMMAND"
  "starts_with ''factory/command/'' (strategy_topic s)"
  by (cases s; simp add: STRATEGY_COMMAND_def SIMULATION_COMMAND_def strategy_topic_def)+


text \<open>Not every command of the ingress is served as announced: a command that addresses
  a strategy by its index on the general strategy topic changes nothing
  (\<^verbatim>\<open>handle_strategy_command\<close> is not defined, the \<^verbatim>\<open>AttributeError\<close> is caught
  and printed), a payload that is not JSON is printed and not logged, a direct command
  with no trigger is logged as a warning, and a payload that is not UTF-8 raises out of
  the callback.\<close>

theorem command_ingress_counterexample:
  "on_mqtt_message fos [] STRATEGY_COMMAND (Json payload_by_index) MQTTValueFactory_init
     = Inr MQTTValueFactory_init
   \<and> on_mqtt_message fos [] SIMULATION_COMMAND Not_json MQTTValueFactory_init
     = Inr MQTTValueFactory_init
   \<and> on_mqtt_message fos [] (strategy_topic PREVENTIVE_MAINTENANCE) (Json (JObj []))
       MQTTValueFactory_init
     = Inr (log WARNING ''Strategy'' MQTTValueFactory_init)
   \<and> on_mqtt_message fos [] SIMULATION_COMMAND Not_utf8 MQTTValueFactory_init
     = Inl (Uncaught UnicodeDecodeError, MQTTValueFactory_init)"
  by (simp add: on_mqtt_message_def STRATEGY_COMMAND_def SIMULATION_COMMAND_def
      handle_direct_strategy_command_def trigger_is_def Let_def strategy_topic_def)

lemma key_present: "map_of kvs k = Some v \<Longrightarrow> k \<in> fst ` set kvs"
  by (metis map_of_eq_None_iff option.distinct(1))

lemma key_absent: "map_of kvs k = None \<Longrightarrow> k \<notin> fst ` set kvs"
  by (simp add: map_of_eq_None_iff)

lemma direct_trigger:
  "map_of kvs ''trigger'' = Some (JBool b) \<Longrightarrow> trigger_is (JObj kvs) b' = Some (b = b')"
  using key_present[of kvs "''trigger''"] by (auto simp: trigger_is_def)

lemma direct_no_trigger:
  "map_of kvs ''trigger'' \<noteq> Some (JBool True) \<Longrightarrow> map_of kvs ''trigger'' \<noteq> Some (JBool False)
     \<Longrightarrow> trigger_is (JObj kvs) b = Some False"
  using key_present[of kvs "''trigger''"] key_absent[of kvs "''trigger''"]
  by (cases "map_of kvs ''trigger''"; cases b) (auto simp: trigger_is_def)

lemma duration_absent:
  "map_of kvs ''duration'' = None \<Longrightarrow> custom_duration_of fos (JObj kvs) st = Inr (None, st)"
  by (simp add: custom_duration_of_def map_of_eq_None_iff)

lemma duration_days:
  "map_of kvs ''duration'' = Some (JNum (Finite days)) \<Longrightarrow>
     custom_duration_of fos (JObj kvs) st = Inr (Some (py_int (days * 24 * 60)), st)"
  using key_present[of kvs "''duration''"] by (simp add: custom_duration_of_def)

text \<open>Claim C9, amended. Simulation control: \<^verbatim>\<open>pause\<close>, \<^verbatim>\<open>resume\<close> and
  \<^verbatim>\<open>stop\<close> set the pause flag, clear it, and leave the program; any other command
  is logged as a warning, a payload with no command or that is no object is logged as an
  error, and a text that is not JSON changes nothing. Strategies are addressed by name, on
  the topic of the strategy: a true trigger activates it, with the duration in days of the
  payload if there is one, a false trigger deactivates it, a payload with no boolean trigger
  is logged as a warning and a topic that names no strategy as an error; in each of these
  cases the state is otherwise unchanged and the callback returns.\<close>

theorem command_ingress:
  "(map_of kvs ''command'' = Some (JStr c) \<and> lower c = ''pause''
      \<longrightarrow> on_mqtt_message fos rs SIMULATION_COMMAND (Json (JObj kvs)) st
            = Inr (log INFO ''Simulation'' (st\<lparr>paused := True\<rparr>)))
   \<and> (map_of kvs ''command'' = Some (JStr c) \<and> lower c = ''resume''
      \<longrightarrow> on_mqtt_message fos rs SIMULATION_COMMAND (Json (JObj kvs)) st
            = Inr (log INFO ''Simulation'' (st\<lparr>paused := False\<rparr>)))
   \<and> (map_of kvs ''command'' = Some (JStr c) \<and> lower c = ''stop''
      \<longrightarrow> on_mqtt_message fos rs SIMULATION_COMMAND (Json (JObj kvs)) st
            = Inl (SystemExit, log INFO ''Simulation'' st))
   \<and> (map_of kvs ''command'' = Some (JStr c) \<and> lower c \<noteq> ''pause'' \<and> lower c \<noteq> ''resume''
        \<and> lower c \<noteq> ''stop''
      \<longrightarrow> on_mqtt_message fos rs SIMULATION_COMMAND (Json (JObj kvs)) st
            = Inr (log WARNING ''Simulation'' st))
   \<and> (map_of kvs ''command'' = None
      \<longrightarrow> on_mqtt_message fos rs SIMULATION_COMMAND (Json (JObj kvs)) st
            = Inr (log ERROR ''Simulation'' st))
   \<and> (payload \<in> {JNull, JBool b, JNum x}
      \<longrightarrow> on_mqtt_message fos rs SIMULATION_COMMAND (Json payload) st
            = Inr (log ERROR ''Simulation'' st))
   \<and> on_mqtt_message fos rs topic Not_json st = Inr st
   \<and> (map_of kvs ''trigger'' = Some (JBool True) \<and> map_of kvs ''duration'' = None
        \<and> modify_strategy rs (index_of s) True None st = Inr (res, st2)
      \<longrightarrow> on_mqtt_message fos rs (strategy_topic s) (Json (JObj kvs)) st
            = Inr (log STRATEGY ''Command'' st2))
   \<and> (map_of kvs ''trigger'' = Some (JBool True)
        \<and> map_of kvs ''duration'' = Some (JNum (Finite days))
        \<and> modify_strategy rs (index_of s) True (Some (py_int (days * 24 * 60))) st = Inr (res, st2)
      \<longrightarrow> on_mqtt_message fos rs (strategy_topic s) (Json (JObj kvs)) st
            = Inr (log STRATEGY ''Command'' st2))
   \<and> (map_of kvs ''trigger'' = Some (JBool False)
        \<and> modify_strategy rs (index_of s) False None st = Inr (res, st2)
      \<longrightarrow> on_mqtt_message fos rs (strategy_topic s) (Json (JObj kvs)) st
            = Inr (log STRATEGY ''Command'' st2))
   \<and> strategies ! nat (index_of s) = s
   \<and> (map_of kvs ''trigger'' \<noteq> Some (JBool True) \<and> map_of kvs ''trigger'' \<noteq> Some (JBool False)
      \<longrightarrow> on_mqtt_message fos rs (strategy_topic s) (Json (JObj kvs)) st
            = Inr (log WARNING ''Strategy'' st))
   \<and> (starts_with ''factory/command/'' topic \<and> topic \<noteq> STRATEGY_COMMAND
        \<and> topic \<noteq> SIMULATION_COMMAND \<and> last_segment topic \<notin> name_of ` UNIV
        \<and> map_of kvs ''trigger'' = Some (JBool b)
      \<longrightarrow> on_mqtt_message fos rs topic (Json (JObj kvs)) st = Inr (log ERROR ''Strategy'' st))"
proof -
  have sim: "STRATEGY_COMMAND \<noteq> SIMULATION_COMMAND"
    by (simp add: STRATEGY_COMMAND_def SIMULATION_COMMAND_def)
  note key = key_present[of kvs]
  have c1: "map_of kvs ''command'' = Some (JStr c) \<Longrightarrow>
      on_mqtt_message fos rs SIMULATION_COMMAND (Json (JObj kvs)) st
       = (if lower c = ''pause'' then Inr (log INFO ''Simulation'' (st\<lparr>paused := True\<rparr>))
          else if lower c = ''resume'' then Inr (log INFO ''Simulation'' (st\<lparr>paused := False\<rparr>))
          else if lower c = ''stop'' then Inl (SystemExit, log INFO ''Simulation'' st)
          else Inr (log WARNING ''Simulation'' st))"
    using sim key[of "''command''"]
    by (simp add: on_mqtt_message_def handle_simulation_command_def Let_def)
  have c5: "map_of kvs ''command'' = None \<Longrightarrow>
      on_mqtt_message fos rs SIMULATION_COMMAND (Json (JObj kvs)) st
            = Inr (log ERROR ''Simulation'' st)"
    using sim by (simp add: on_mqtt_message_def handle_simulation_command_def map_of_eq_None_iff)
  have c6: "payload \<in> {JNull, JBool b, JNum x}
      \<Longrightarrow> on_mqtt_message fos rs SIMULATION_COMMAND (Json payload) st
            = Inr (log ERROR ''Simulation'' st)"
    using sim by (auto simp: on_mqtt_message_def handle_simulation_command_def)
  have c7: "on_mqtt_message fos rs topic Not_json st = Inr st"
    by (simp add: on_mqtt_message_def)
  have d: "\<And>payload. on_mqtt_message fos rs (strategy_topic s) (Json payload) st
      = Inr (handle_direct_strategy_command fos rs (strategy_topic s) payload st)"
    using topic_of_strategy[of s] by (simp add: on_mqtt_message_def)
  have c8: "map_of kvs ''trigger'' = Some (JBool True) \<and> map_of kvs ''duration'' = None
        \<and> modify_strategy rs (index_of s) True None st = Inr (res, st2)
      \<Longrightarrow> on_mqtt_message fos rs (strategy_topic s) (Json (JObj kvs)) st
            = Inr (log STRATEGY ''Command'' st2)"
    by (simp add: d handle_direct_strategy_command_def last_segment_topic matching_strategy
        direct_trigger duration_absent Let_def)
  have c9: "map_of kvs ''trigger'' = Some (JBool True)
        \<and> map_of kvs ''duration'' = Some (JNum (Finite days))
        \<and> modify_strategy rs (index_of s) True (Some (py_int (days * 24 * 60))) st = Inr (res, st2)
      \<Longrightarrow> on_mqtt_message fos rs (strategy_topic s) (Json (JObj kvs)) st
            = Inr (log STRATEGY ''Command'' st2)"
    by (simp add: d handle_direct_strategy_command_def last_segment_topic matching_strategy
        direct_trigger duration_days Let_def)
  have c10: "map_of kvs ''trigger'' = Some (JBool False)
        \<and> modify_strategy rs (index_of s) False None st = Inr (res, st2)
      \<Longrightarrow> on_mqtt_message fos rs (strategy_topic s) (Json (JObj kvs)) st
            = Inr (log STRATEGY ''Command'' st2)"
    using direct_trigger[of kvs False True] direct_trigger[of kvs False False]
    by (simp add: d handle_direct_strategy_command_def last_segment_topic matching_strategy
        Let_def)
  have c12: "map_of kvs ''trigger'' \<noteq> Some (JBool True) \<and> map_of kvs ''trigger'' \<noteq> Some (JBool False)
      \<Longrightarrow> on_mqtt_message fos rs (strategy_topic s) (Json (JObj kvs)) st
            = Inr (log WARNING ''Strategy'' st)"
    by (simp add: d handle_direct_strategy_command_def direct_no_trigger Let_def)
  have c13: "starts_with ''factory/command/'' topic \<and> topic \<noteq> STRATEGY_COMMAND
        \<and> topic \<noteq> SIMULATION_COMMAND \<and> last_segment topic \<notin> name_of ` UNIV
        \<and> map_of kvs ''trigger'' = Some (JBool b)
      \<Longrightarrow> on_mqtt_message fos rs topic (Json (JObj kvs)) st = Inr (log ERROR ''Strategy'' st)"
  proof -
    assume a: "starts_with ''factory/command/'' topic \<and> topic \<noteq> STRATEGY_COMMAND
        \<and> topic \<noteq> SIMULATION_COMMAND \<and> last_segment topic \<notin> name_of ` UNIV
        \<and> map_of kvs ''trigger'' = Some (JBool b)"
    then have "filter (\<lambda>x. name_of x = last_segment topic) strategies = []"
      by (auto simp: filter_empty_conv image_iff) metis
    with a show ?thesis
      using direct_trigger[of kvs b True] direct_trigger[of kvs b False]
      by (cases b) (simp_all add: on_mqtt_message_def handle_direct_strategy_command_def
          Let_def)
  qed
  show ?thesis
    using c1 c5 c6 c7 c8 c9 c10 c12 c13 index_of_nth[of s]
    by (intro conjI impI) simp_all
qed

end
